theory Spec2Isabelle
  imports Main
begin

section \<open>The directory store\<close>

text \<open>
  The four tables the migration code reads and writes through Prisma: users, teams,
  memberships and temporary organization redirects. A table is the list of its rows;
  \<open>findMany\<close> returns the matching rows in table order and \<open>findFirst\<close> and
  \<open>findUnique\<close> the first matching one. Numeric identifiers are JavaScript numbers that
  hold integers; \<open>0\<close> is the only falsy one. A nullable column is an \<open>option\<close>.
\<close>

datatype MembershipRole = MEMBER | ADMIN | OWNER

datatype RedirectType = User | Team

text \<open>
  The provenance record under the key \<open>migratedToOrgFrom\<close> of a user's metadata. The
  forward migration writes \<open>username\<close> and \<open>lastMigrationTime\<close> only, the reversal
  writes \<open>username: null\<close>, \<open>reverted\<close> and \<open>revertTime\<close> only, so every key is
  optional; an absent key reads as \<open>undefined\<close>, which is falsy.
\<close>

record migratedToOrgFrom =
  musername :: "string option"
  reverted :: "bool option"
  revertTime :: "string option"
  lastMigrationTime :: "string option"

text \<open>
  A user's metadata object: the provenance record and the other keys, which the code
  copies unchanged (the object spread) and never reads.
\<close>

record userMetadata =
  migratedTo :: "migratedToOrgFrom option"
  otherKeys :: "(string \<times> string) list"

record user =
  uid :: int
  username :: "string option"
  email :: string
  organizationId :: "int option"
  umetadata :: "userMetadata option"

text \<open>
  A team's metadata as \<open>teamMetadataSchema.parse\<close> returns it: \<open>null\<close> for a team
  without metadata, otherwise the three optional keys the migration reads. The stores of
  the model hold metadata of this shape only, so \<open>parse\<close> returns what it is given; the
  error it throws on a value of another shape is outside the model.
\<close>

record teamMetadata =
  isOrganization :: "bool option"
  requestedSlug :: "string option"
  orgAutoAcceptEmail :: "string option"

record team =
  tid :: int
  slug :: "string option"
  parentId :: "int option"
  tmetadata :: "teamMetadata option"

record membership =
  userId :: int
  teamId :: int
  role :: MembershipRole
  accepted :: bool

record tempOrgRedirect =
  rtype :: RedirectType
  rfrom :: string
  fromOrgId :: int
  toUrl :: string

record store =
  users :: "user list"
  teams :: "team list"
  memberships :: "membership list"
  redirects :: "tempOrgRedirect list"

subsection \<open>Errors\<close>

text \<open>
  One constructor of \<open>message\<close> for each message the code throws, with the values its
  template interpolates. \<open>HttpError\<close> carries the status code the throw site gives;
  \<open>Error\<close> is JavaScript's plain \<open>Error\<close>, which has none; \<open>PrismaError\<close> is what the
  store raises itself, with Prisma's code (\<open>P2025\<close>: the record to delete does not exist;
  \<open>P2002\<close>: a unique constraint failed).
\<close>

datatype message =
    UserIdOrUserNameRequired
  | ProvideEitherUserIdOrUserName
  | OrgNotFound int
  | NotAnOrg int
  | MoreThanOneUserFound string
  | UserIsPartOfAnOrgAlready "string option" "int option"
  | UserAlreadyPartOfAnOrganization
  | UsernameAlreadyExists string int
  | UserExistsForDifferentOrg string int
  | NoNonOrgUsername "int option"
  | OrgHasNoSlug int
  | TeamNotFound int
  | NoSlugForTeam
  | TeamNameTaken
  | UserNotFound int
  | UserNotPartOfOrg int int
  | UserWasntMigrated int
  | UserAlreadyReverted int

datatype error =
    HttpError int message
  | Error message
  | PrismaError string

text \<open>
  What the three request handlers answer for an error of the operation they call: the
  status code of an \<open>HttpError\<close>, and 500 for everything else.
\<close>

fun responseStatus :: "error \<Rightarrow> int" where
  "responseStatus (HttpError statusCode m) = statusCode"
| "responseStatus (Error m) = 500"
| "responseStatus (PrismaError c) = 500"

subsection \<open>Truthiness\<close>

text \<open>JavaScript's \<open>!x\<close> on a string or a number that may be null or undefined.\<close>

fun truthyStr :: "string option \<Rightarrow> bool" where
  "truthyStr None = False"
| "truthyStr (Some s) = (s \<noteq> [])"

fun truthyNum :: "int option \<Rightarrow> bool" where
  "truthyNum None = False"
| "truthyNum (Some n) = (n \<noteq> 0)"

fun truthyBool :: "bool option \<Rightarrow> bool" where
  "truthyBool None = False"
| "truthyBool (Some b) = b"

text \<open>\<open>a || b\<close> on strings: the first one if it is truthy, else the second.\<close>

definition orElse :: "string option \<Rightarrow> string option \<Rightarrow> string option" where
  "orElse a b = (if truthyStr a then a else b)"

text \<open>\<open>teamMetadata?.isOrganization\<close>, read as a condition.\<close>

fun isOrg :: "teamMetadata option \<Rightarrow> bool" where
  "isOrg None = False"
| "isOrg (Some m) = truthyBool (isOrganization m)"

subsection \<open>Store operations\<close>

text \<open>
  The Prisma calls the code makes. \<open>update\<close> and \<open>updateMany\<close> change the rows the
  \<open>where\<close> clause selects and leave the table's order; \<open>upsert\<close> changes the selected
  row if there is one and appends a row otherwise; \<open>deleteMany\<close> removes the selected
  rows and never fails; \<open>delete\<close> fails with \<open>P2025\<close> when it selects no row. Every
  \<open>update\<close> of the source addresses a row it has just read, so the row exists. The
  unique constraints of the schema, which is not part of these sources, raise \<open>P2002\<close>
  in the store. The model raises it where the source handles it (the \<open>catch\<close> of
  \<open>removeTeamFromOrg\<close>). The other writes that a constraint can reject (the team
  updates of \<open>updateTeams\<close>, \<open>setOrgSlug\<close> and the reversal's \<open>updateTeams\<close>, and
  the user updates) succeed in the model; the predicates \<open>slugClashAfter\<close>,
  \<open>backfillClash\<close> and \<open>usernameTaken\<close> below say when the store would reject the
  writes of \<open>migrateUserToOrg\<close> and of \<open>removeFromOrg\<close>, and a theorem on what these
  two calls leave once their checks have passed either assumes that the call succeeds or
  assumes that these predicates are false. Ids are primary keys; a theorem that needs
  the ids of a table to be distinct says so.
\<close>

definition findUserById :: "int \<Rightarrow> store \<Rightarrow> user option" where
  "findUserById i s = find (\<lambda>u. uid u = i) (users s)"

definition findTeamById :: "int \<Rightarrow> store \<Rightarrow> team option" where
  "findTeamById i s = find (\<lambda>t. tid t = i) (teams s)"

definition updateUserRow :: "int \<Rightarrow> (user \<Rightarrow> user) \<Rightarrow> store \<Rightarrow> store" where
  "updateUserRow i f s = s\<lparr>users := map (\<lambda>u. if uid u = i then f u else u) (users s)\<rparr>"

definition updateTeamRow :: "int \<Rightarrow> (team \<Rightarrow> team) \<Rightarrow> store \<Rightarrow> store" where
  "updateTeamRow i f s = s\<lparr>teams := map (\<lambda>t. if tid t = i then f t else t) (teams s)\<rparr>"

definition updateManyTeams :: "int list \<Rightarrow> (team \<Rightarrow> team) \<Rightarrow> store \<Rightarrow> store" where
  "updateManyTeams ids f s =
     s\<lparr>teams := map (\<lambda>t. if tid t \<in> set ids then f t else t) (teams s)\<rparr>"

definition upsertMembership :: "int \<Rightarrow> int \<Rightarrow> MembershipRole \<Rightarrow> bool \<Rightarrow> store \<Rightarrow> store" where
  "upsertMembership u t r a s =
     (if \<exists>m \<in> set (memberships s). userId m = u \<and> teamId m = t
      then s\<lparr>memberships :=
              map (\<lambda>m. if userId m = u \<and> teamId m = t then m\<lparr>role := r, accepted := a\<rparr> else m)
                (memberships s)\<rparr>
      else s\<lparr>memberships :=
              memberships s @ [\<lparr>userId = u, teamId = t, role = r, accepted = a\<rparr>]\<rparr>)"

definition deleteMembership :: "int \<Rightarrow> int \<Rightarrow> store \<Rightarrow> error + store" where
  "deleteMembership u t s =
     (if \<exists>m \<in> set (memberships s). userId m = u \<and> teamId m = t
      then Inr (s\<lparr>memberships :=
                  filter (\<lambda>m. \<not> (userId m = u \<and> teamId m = t)) (memberships s)\<rparr>)
      else Inl (PrismaError ''P2025''))"

definition redirectKey :: "RedirectType \<Rightarrow> string \<Rightarrow> tempOrgRedirect \<Rightarrow> bool" where
  "redirectKey ty f r = (rtype r = ty \<and> rfrom r = f \<and> fromOrgId r = 0)"

definition upsertRedirect :: "RedirectType \<Rightarrow> string \<Rightarrow> string \<Rightarrow> store \<Rightarrow> store" where
  "upsertRedirect ty f url s =
     (if \<exists>r \<in> set (redirects s). redirectKey ty f r
      then s\<lparr>redirects :=
              map (\<lambda>r. if redirectKey ty f r then r\<lparr>toUrl := url\<rparr> else r) (redirects s)\<rparr>
      else s\<lparr>redirects :=
              redirects s @ [\<lparr>rtype = ty, rfrom = f, fromOrgId = 0, toUrl = url\<rparr>]\<rparr>)"

definition deleteManyRedirects :: "RedirectType \<Rightarrow> string \<Rightarrow> store \<Rightarrow> store" where
  "deleteManyRedirects ty f s =
     s\<lparr>redirects := filter (\<lambda>r. \<not> redirectKey ty f r) (redirects s)\<rparr>"

text \<open>
  The two functions the migration imports from other packages, whose code is not part
  of these sources, are parameters of the model: \<open>getOrgUsernameFromEmail email domain\<close>
  and \<open>getOrgFullOrigin slug\<close>.
\<close>

record env =
  getOrgUsernameFromEmail :: "string \<Rightarrow> string \<Rightarrow> string"
  getOrgFullOrigin :: "string \<Rightarrow> string"

section \<open>lib/orgMigration.ts\<close>

definition assertUserIdOrUserName :: "int option \<Rightarrow> string option \<Rightarrow> error + unit" where
  "assertUserIdOrUserName userId' userName =
     (if \<not> truthyNum userId' \<and> \<not> truthyStr userName
      then Inl (HttpError 400 UserIdOrUserNameRequired)
      else if truthyNum userId' \<and> truthyStr userName
      then Inl (HttpError 400 ProvideEitherUserIdOrUserName)
      else Inr ())"

definition getTeamOrThrowError :: "int \<Rightarrow> store \<Rightarrow> error + team" where
  "getTeamOrThrowError targetOrgId s =
     (case findTeamById targetOrgId s of
        None \<Rightarrow> Inl (HttpError 400 (OrgNotFound targetOrgId))
      | Some t \<Rightarrow> Inr t)"

text \<open>
  With a user name, the rows of that name that are standalone or in the excluded
  organization: an error if there are several, else the first one or \<open>undefined\<close>.
  Without one, the lookup by id. \<open>migrateUserToOrg\<close> calls it after
  \<open>assertUserIdOrUserName\<close>, so without a user name the id is defined; the model
  returns no row for the undefined id the function's type allows.
\<close>

definition getUniqueUserThatDoesntBelongToOrg ::
  "string option \<Rightarrow> int option \<Rightarrow> int \<Rightarrow> store \<Rightarrow> error + user option" where
  "getUniqueUserThatDoesntBelongToOrg userName userId' excludeOrgId s =
     (if truthyStr userName then
        (let matchingUsers = filter (\<lambda>u. username u = userName) (users s);
             foundUsers = filter (\<lambda>u. organizationId u = Some excludeOrgId
                                        \<or> organizationId u = None) matchingUsers
         in if length foundUsers > 1
            then Inl (Error (MoreThanOneUserFound (case userName of Some n \<Rightarrow> n | None \<Rightarrow> [])))
            else Inr (case foundUsers of [] \<Rightarrow> None | u # _ \<Rightarrow> Some u))
      else Inr (case userId' of None \<Rightarrow> None | Some i \<Rightarrow> findUserById i s))"

definition assertUserPartOfOtherOrg ::
  "user option \<Rightarrow> string option \<Rightarrow> int option \<Rightarrow> int \<Rightarrow> error + user" where
  "assertUserPartOfOtherOrg userToMoveToOrg userName userId' targetOrgId =
     (case userToMoveToOrg of
        None \<Rightarrow> Inl (HttpError 400 (UserIsPartOfAnOrgAlready userName userId'))
      | Some u \<Rightarrow>
          if truthyNum (organizationId u) \<and> organizationId u \<noteq> Some targetOrgId
          then Inl (HttpError 400 UserAlreadyPartOfAnOrganization)
          else Inr u)"

definition assertUserPartOfOrgAndRemigrationAllowed ::
  "user \<Rightarrow> int \<Rightarrow> string \<Rightarrow> int option \<Rightarrow> error + unit" where
  "assertUserPartOfOrgAndRemigrationAllowed userToMoveToOrg targetOrgId targetOrgUsername userId' =
     (if truthyNum (organizationId userToMoveToOrg)
      then (if organizationId userToMoveToOrg \<noteq> Some targetOrgId
            then Inl (HttpError 400 (UserExistsForDifferentOrg targetOrgUsername targetOrgId))
            else Inr ())
      else Inr ())"

text \<open>\<open>userToMoveToOrg.metadata || {}\<close>: the metadata object, empty for \<open>null\<close>.\<close>

definition metadataOrEmpty :: "userMetadata option \<Rightarrow> userMetadata" where
  "metadataOrEmpty m =
     (case m of None \<Rightarrow> \<lparr>migratedTo = None, otherKeys = []\<rparr> | Some x \<Rightarrow> x)"

text \<open>\<open>metadata.migratedToOrgFrom?.username\<close>\<close>

definition migratedFromUsername :: "user \<Rightarrow> string option" where
  "migratedFromUsername u =
     (case migratedTo (metadataOrEmpty (umetadata u)) of
        None \<Rightarrow> None
      | Some p \<Rightarrow> musername p)"

definition updateUser :: "user \<Rightarrow> int \<Rightarrow> string \<Rightarrow> string \<Rightarrow> string \<Rightarrow> store \<Rightarrow> store" where
  "updateUser userToMoveToOrg targetOrgId targetOrgUsername nonOrgUserName now s =
     updateUserRow (uid userToMoveToOrg)
       (\<lambda>u. u\<lparr>organizationId := Some targetOrgId,
               username := Some targetOrgUsername,
               umetadata := Some ((metadataOrEmpty (umetadata userToMoveToOrg))
                 \<lparr>migratedTo := Some \<lparr>musername = Some nonOrgUserName, reverted = None,
                     revertTime = None, lastMigrationTime = Some now\<rparr>\<rparr>)\<rparr>) s"

text \<open>
  The teams of the user's memberships that are not organizations; they are given the
  target as parent when the user has a membership at all. The teams are returned as
  they were read. The update is written without regard to the slugs of the other teams;
  \<open>slugClashAfter\<close>, further down, says when the store's unique constraint would
  reject it.
\<close>

definition teamsOfUser :: "int \<Rightarrow> store \<Rightarrow> team list" where
  "teamsOfUser i s =
     (let memberships' = filter (\<lambda>m. userId m = i) (memberships s);
          membershipTeamIds = map teamId memberships';
          teams' = filter (\<lambda>t. tid t \<in> set membershipTeamIds) (teams s)
      in filter (\<lambda>t. \<not> isOrg (tmetadata t)) teams')"

definition updateTeams :: "int \<Rightarrow> user \<Rightarrow> store \<Rightarrow> team list \<times> store" where
  "updateTeams targetOrgId userToMoveToOrg s =
     (let memberships' = filter (\<lambda>m. userId m = uid userToMoveToOrg) (memberships s);
          teamsToBeMovedToOrg = teamsOfUser (uid userToMoveToOrg) s;
          teamIdsToBeMovedToOrg = map tid teamsToBeMovedToOrg
      in (teamsToBeMovedToOrg,
          if memberships' \<noteq> []
          then updateManyTeams teamIdsToBeMovedToOrg (\<lambda>t. t\<lparr>parentId := Some targetOrgId\<rparr>) s
          else s))"

definition updateMembership :: "int \<Rightarrow> user \<Rightarrow> MembershipRole \<Rightarrow> bool \<Rightarrow> store \<Rightarrow> store" where
  "updateMembership targetOrgId userToMoveToOrg targetOrgRole targetOrgMembershipAccepted s =
     upsertMembership (uid userToMoveToOrg) targetOrgId targetOrgRole targetOrgMembershipAccepted s"

text \<open>The loop of \<open>addRedirect\<close> over the relocated teams: a team without slug is skipped.\<close>

fun addTeamRedirects :: "string \<Rightarrow> team list \<Rightarrow> store \<Rightarrow> store" where
  "addTeamRedirects orgUrlPrefix [] s = s"
| "addTeamRedirects orgUrlPrefix (t # ts) s =
     (case slug t of
        None \<Rightarrow> addTeamRedirects orgUrlPrefix ts s
      | Some sl \<Rightarrow>
          if sl = [] then addTeamRedirects orgUrlPrefix ts s
          else addTeamRedirects orgUrlPrefix ts
                 (upsertRedirect Team sl (orgUrlPrefix @ ''/team/'' @ sl) s))"

definition addRedirect :: "env \<Rightarrow> string option \<Rightarrow> team \<Rightarrow> string \<Rightarrow> team list \<Rightarrow> store \<Rightarrow> store" where
  "addRedirect e nonOrgUserName organization targetOrgUsername teamsToBeMovedToOrg s =
     (case nonOrgUserName of
        None \<Rightarrow> s
      | Some n \<Rightarrow>
          if n = [] then s
          else
            (case orElse (slug organization)
                    (case tmetadata organization of None \<Rightarrow> None | Some m \<Rightarrow> requestedSlug m) of
               None \<Rightarrow> s
             | Some orgSlug \<Rightarrow>
                 if orgSlug = [] then s
                 else
                   (let orgUrlPrefix = getOrgFullOrigin e orgSlug
                    in addTeamRedirects orgUrlPrefix teamsToBeMovedToOrg
                         (upsertRedirect User n (orgUrlPrefix @ ''/'' @ targetOrgUsername) s))))"

text \<open>
  The slug is written without regard to the slugs of the other teams; \<open>backfillClash\<close>,
  further down, says when the store's unique constraint would reject it.
\<close>

definition setOrgSlug :: "int \<Rightarrow> string \<Rightarrow> store \<Rightarrow> store" where
  "setOrgSlug targetOrgId targetSlug s =
     updateTeamRow targetOrgId (\<lambda>t. t\<lparr>slug := Some targetSlug\<rparr>) s"

definition setOrgSlugIfNotSet ::
  "string option \<Rightarrow> teamMetadata option \<Rightarrow> int \<Rightarrow> store \<Rightarrow> (error + unit) \<times> store" where
  "setOrgSlugIfNotSet orgSlug orgMetadata targetOrgId s =
     (if truthyStr orgSlug then (Inr (), s)
      else
        (case (case orgMetadata of None \<Rightarrow> None | Some m \<Rightarrow> requestedSlug m) of
           None \<Rightarrow> (Inl (HttpError 400 (OrgHasNoSlug targetOrgId)), s)
         | Some rs \<Rightarrow>
             if rs = [] then (Inl (HttpError 400 (OrgHasNoSlug targetOrgId)), s)
             else (Inr (), setOrgSlug targetOrgId rs s)))"

text \<open>
  The organization username the migration gives the user: the caller's, or when that
  is absent or empty the one derived from the user's email and the organization's
  \<open>orgAutoAcceptEmail || ""\<close>.
\<close>

definition resolveTargetOrgUsername :: "env \<Rightarrow> string option \<Rightarrow> user \<Rightarrow> team \<Rightarrow> string" where
  "resolveTargetOrgUsername e targetOrgUsername userToMoveToOrg targetOrganization =
     (if truthyStr targetOrgUsername
      then (case targetOrgUsername of Some n \<Rightarrow> n | None \<Rightarrow> [])
      else getOrgUsernameFromEmail e (email userToMoveToOrg)
             (case orElse (case tmetadata targetOrganization of None \<Rightarrow> None
                           | Some m \<Rightarrow> orgAutoAcceptEmail m) (Some []) of
                Some d \<Rightarrow> d | None \<Rightarrow> []))"

text \<open>
  \<open>migrateUserToOrg\<close>: the checks, each returning the store as it is, then the five
  writes in the order of the source. \<open>now\<close> is what \<open>new Date().toISOString()\<close> returns
  during the call. An absent \<open>accepted\<close> defaults to true.
\<close>

definition migrateUserToOrg ::
  "env \<Rightarrow> string \<Rightarrow> int option \<Rightarrow> string option \<Rightarrow> int \<Rightarrow> string option \<Rightarrow>
   MembershipRole \<Rightarrow> bool option \<Rightarrow> store \<Rightarrow> (error + unit) \<times> store" where
  "migrateUserToOrg e now userId' userName targetOrgId targetOrgUsername targetOrgRole
     acceptedArg s =
     (case assertUserIdOrUserName userId' userName of
        Inl err \<Rightarrow> (Inl err, s)
      | Inr _ \<Rightarrow>
     (case getTeamOrThrowError targetOrgId s of
        Inl err \<Rightarrow> (Inl err, s)
      | Inr team' \<Rightarrow>
     if \<not> isOrg (tmetadata team') then (Inl (Error (NotAnOrg targetOrgId)), s)
     else
     (case getUniqueUserThatDoesntBelongToOrg userName userId' targetOrgId s of
        Inl err \<Rightarrow> (Inl err, s)
      | Inr found \<Rightarrow>
     (case assertUserPartOfOtherOrg found userName userId' targetOrgId of
        Inl err \<Rightarrow> (Inl err, s)
      | Inr userToMoveToOrg \<Rightarrow>
     (let targetOrgUsername' =
            resolveTargetOrgUsername e targetOrgUsername userToMoveToOrg team';
          userWithSameUsernameInOrg =
            find (\<lambda>u. username u = Some targetOrgUsername'
                      \<and> organizationId u = Some targetOrgId) (users s)
      in
     if (case userWithSameUsernameInOrg of None \<Rightarrow> False | Some w \<Rightarrow> Some (uid w) \<noteq> userId')
     then (Inl (HttpError 400 (UsernameAlreadyExists targetOrgUsername' targetOrgId)), s)
     else
     (case assertUserPartOfOrgAndRemigrationAllowed userToMoveToOrg targetOrgId
             targetOrgUsername' userId' of
        Inl err \<Rightarrow> (Inl err, s)
      | Inr _ \<Rightarrow>
     (case orElse (migratedFromUsername userToMoveToOrg) (username userToMoveToOrg) of
        None \<Rightarrow> (Inl (HttpError 400 (NoNonOrgUsername userId')), s)
      | Some nonOrgUserName \<Rightarrow>
     if nonOrgUserName = [] then (Inl (HttpError 400 (NoNonOrgUsername userId')), s)
     else
     (let s1 = updateUser userToMoveToOrg targetOrgId targetOrgUsername' nonOrgUserName now s;
          (teamsToBeMovedToOrg, s2) = updateTeams targetOrgId userToMoveToOrg s1;
          s3 = updateMembership targetOrgId userToMoveToOrg targetOrgRole
                 (case acceptedArg of None \<Rightarrow> True | Some a \<Rightarrow> a) s2;
          s4 = addRedirect e (Some nonOrgUserName) team' targetOrgUsername'
                 teamsToBeMovedToOrg s3
      in setOrgSlugIfNotSet (slug team') (tmetadata team') targetOrgId s4))))))))"

section \<open>pages/api/orgMigration/moveTeamToOrg.ts\<close>

text \<open>
  This file has its own \<open>getTeamOrThrowError\<close>, \<open>setOrgSlugIfNotSet\<close> and
  \<open>setOrgSlug\<close>, with the code of those above. Its \<open>updateTeam\<close> returns the team as
  it was read, with its membership rows (\<open>include: members\<close>).
\<close>

definition updateTeam_move :: "int \<Rightarrow> int \<Rightarrow> store \<Rightarrow> (error + team \<times> membership list) \<times> store" where
  "updateTeam_move teamId' targetOrgId s =
     (case findTeamById teamId' s of
        None \<Rightarrow> (Inl (HttpError 400 (TeamNotFound teamId')), s)
      | Some t \<Rightarrow>
          (let members = filter (\<lambda>m. teamId m = teamId') (memberships s)
           in if parentId t = Some targetOrgId then (Inr (t, members), s)
              else (Inr (t, members),
                    updateTeamRow teamId' (\<lambda>t. t\<lparr>parentId := Some targetOrgId\<rparr>) s)))"

definition addRedirect_move :: "env \<Rightarrow> string option \<Rightarrow> string option \<Rightarrow> store \<Rightarrow> (error + unit) \<times> store" where
  "addRedirect_move e teamSlug orgSlug s =
     (case teamSlug of
        None \<Rightarrow> (Inl (HttpError 400 NoSlugForTeam), s)
      | Some ts \<Rightarrow>
          if ts = [] then (Inl (HttpError 400 NoSlugForTeam), s)
          else
            (case orgSlug of
               None \<Rightarrow> (Inr (), s)
             | Some os \<Rightarrow>
                 if os = [] then (Inr (), s)
                 else (Inr (), upsertRedirect Team ts (getOrgFullOrigin e os @ ''/'' @ ts) s)))"

text \<open>
  The loop over the moved team's members: it stops at the first call that throws. The
  calls read the clock one after the other; the model gives them the one value \<open>now\<close>.
\<close>

fun migrateMembers :: "env \<Rightarrow> string \<Rightarrow> int \<Rightarrow> membership list \<Rightarrow> store \<Rightarrow> (error + unit) \<times> store" where
  "migrateMembers e now targetOrgId [] s = (Inr (), s)"
| "migrateMembers e now targetOrgId (m # ms) s =
     (case migrateUserToOrg e now (Some (userId m)) None targetOrgId None (role m)
             (Some (accepted m)) s of
        (Inl err, s') \<Rightarrow> (Inl err, s')
      | (Inr _, s') \<Rightarrow> migrateMembers e now targetOrgId ms s')"

definition moveTeamToOrg :: "env \<Rightarrow> string \<Rightarrow> int \<Rightarrow> int \<Rightarrow> bool option \<Rightarrow> store \<Rightarrow> (error + unit) \<times> store" where
  "moveTeamToOrg e now targetOrgId teamId' moveMembers s =
     (case getTeamOrThrowError targetOrgId s of
        Inl err \<Rightarrow> (Inl err, s)
      | Inr possibleOrg \<Rightarrow>
     (case updateTeam_move teamId' targetOrgId s of
        (Inl err, s1) \<Rightarrow> (Inl err, s1)
      | (Inr (movedTeam, members), s1) \<Rightarrow>
     if \<not> isOrg (tmetadata possibleOrg) then (Inl (Error (NotAnOrg targetOrgId)), s1)
     else
     (case addRedirect_move e (slug movedTeam)
             (orElse (orElse (slug possibleOrg)
                        (case tmetadata possibleOrg of None \<Rightarrow> None
                         | Some m \<Rightarrow> requestedSlug m)) None) s1 of
        (Inl err, s2) \<Rightarrow> (Inl err, s2)
      | (Inr _, s2) \<Rightarrow>
     (case setOrgSlugIfNotSet (slug possibleOrg) (tmetadata possibleOrg) targetOrgId s2 of
        (Inl err, s3) \<Rightarrow> (Inl err, s3)
      | (Inr _, s3) \<Rightarrow>
     if truthyBool moveMembers then migrateMembers e now targetOrgId members s3
     else (Inr (), s3)))))"

section \<open>pages/api/orgMigration/removeTeamFromOrg.ts\<close>

text \<open>
  Modelled from the spec: the store's unique constraint on team slugs, which the Prisma
  schema declares and these sources do not contain. The update that clears a team's
  parent fails with \<open>P2002\<close> when another team outside every organization already holds
  the same slug ("an unrelated team outside the org already holds the same slug").
\<close>

definition slugTakenOutsideOrg :: "team \<Rightarrow> store \<Rightarrow> bool" where
  "slugTakenOutsideOrg t s =
     (truthyStr (slug t)
      \<and> (\<exists>t' \<in> set (teams s). tid t' \<noteq> tid t \<and> slug t' = slug t \<and> parentId t' = None))"

definition updateTeam_remove :: "int \<Rightarrow> int \<Rightarrow> store \<Rightarrow> (error + string option) \<times> store" where
  "updateTeam_remove teamId' targetOrgId s =
     (case findTeamById teamId' s of
        None \<Rightarrow> (Inl (HttpError 400 (TeamNotFound teamId')), s)
      | Some t \<Rightarrow>
          if parentId t \<noteq> Some targetOrgId then (Inr (slug t), s)
          else if slugTakenOutsideOrg t s then (Inl (HttpError 400 TeamNameTaken), s)
          else (Inr (slug t), updateTeamRow teamId' (\<lambda>t. t\<lparr>parentId := None\<rparr>) s))"

definition removeRedirect_team :: "string option \<Rightarrow> store \<Rightarrow> (error + unit) \<times> store" where
  "removeRedirect_team teamSlug s =
     (case teamSlug of
        None \<Rightarrow> (Inl (HttpError 400 NoSlugForTeam), s)
      | Some ts \<Rightarrow>
          if ts = [] then (Inl (HttpError 400 NoSlugForTeam), s)
          else (Inr (), deleteManyRedirects Team ts s))"

definition removeTeamFromOrg :: "int \<Rightarrow> int \<Rightarrow> store \<Rightarrow> (error + unit) \<times> store" where
  "removeTeamFromOrg targetOrgId teamId' s =
     (case updateTeam_remove teamId' targetOrgId s of
        (Inl err, s1) \<Rightarrow> (Inl err, s1)
      | (Inr removedSlug, s1) \<Rightarrow> removeRedirect_team removedSlug s1)"

section \<open>The reversal of a user's migration (removeUserFromOrg)\<close>

text \<open>The loop of \<open>removeRedirect\<close> over the user's teams: a team without slug is skipped.\<close>

fun removeTeamRedirects :: "team list \<Rightarrow> store \<Rightarrow> store" where
  "removeTeamRedirects [] s = s"
| "removeTeamRedirects (t # ts) s =
     (case slug t of
        None \<Rightarrow> removeTeamRedirects ts s
      | Some sl \<Rightarrow>
          if sl = [] then removeTeamRedirects ts s
          else removeTeamRedirects ts (deleteManyRedirects Team sl s))"

definition removeRedirect_user :: "string option \<Rightarrow> team list \<Rightarrow> store \<Rightarrow> store" where
  "removeRedirect_user nonOrgUserName teamsToBeRemovedFromOrg s =
     (case nonOrgUserName of
        None \<Rightarrow> s
      | Some n \<Rightarrow>
          if n = [] then s
          else removeTeamRedirects teamsToBeRemovedFromOrg (deleteManyRedirects User n s))"

definition removeMembership :: "int \<Rightarrow> user \<Rightarrow> store \<Rightarrow> (error + unit) \<times> store" where
  "removeMembership targetOrgId userToRemoveFromOrg s =
     (case deleteMembership (uid userToRemoveFromOrg) targetOrgId s of
        Inl err \<Rightarrow> (Inl err, s)
      | Inr s' \<Rightarrow> (Inr (), s'))"

definition updateUser_remove :: "user \<Rightarrow> string \<Rightarrow> string \<Rightarrow> store \<Rightarrow> store" where
  "updateUser_remove userToRemoveFromOrg nonOrgUserName now s =
     updateUserRow (uid userToRemoveFromOrg)
       (\<lambda>u. u\<lparr>organizationId := None,
               username := Some nonOrgUserName,
               umetadata := Some ((metadataOrEmpty (umetadata userToRemoveFromOrg))
                 \<lparr>migratedTo := Some \<lparr>musername = None, reverted = Some True,
                     revertTime = Some now, lastMigrationTime = None\<rparr>\<rparr>)\<rparr>) s"

text \<open>
  The reversal's \<open>updateTeams\<close> clears the parent of the user's teams without regard
  to the slugs of the other teams, and its \<open>updateUser\<close> above writes the username
  without regard to the other users; \<open>slugClashAfter\<close> and \<open>usernameTaken\<close>, further
  down, say when the store's unique constraints would reject them.
\<close>

definition updateTeams_remove :: "user \<Rightarrow> store \<Rightarrow> team list \<times> store" where
  "updateTeams_remove userToRemoveFromOrg s =
     (let memberships' = filter (\<lambda>m. userId m = uid userToRemoveFromOrg) (memberships s);
          teamsToBeRemovedFromOrg = teamsOfUser (uid userToRemoveFromOrg) s;
          teamIdsToBeRemovedFromOrg = map tid teamsToBeRemovedFromOrg
      in (teamsToBeRemovedFromOrg,
          if memberships' \<noteq> []
          then updateManyTeams teamIdsToBeRemovedFromOrg (\<lambda>t. t\<lparr>parentId := None\<rparr>) s
          else s))"

text \<open>
  \<open>removeFromOrg\<close>: five checks, then the teams, the user, the redirects and last the
  membership row, which \<open>delete\<close> requires to exist.
\<close>

definition removeFromOrg :: "string \<Rightarrow> int \<Rightarrow> int \<Rightarrow> store \<Rightarrow> (error + unit) \<times> store" where
  "removeFromOrg now targetOrgId userId' s =
     (case findUserById userId' s of
        None \<Rightarrow> (Inl (HttpError 400 (UserNotFound userId')), s)
      | Some userToRemoveFromOrg \<Rightarrow>
     if organizationId userToRemoveFromOrg \<noteq> Some targetOrgId
     then (Inl (HttpError 400 (UserNotPartOfOrg userId' targetOrgId)), s)
     else
     (case migratedTo (metadataOrEmpty (umetadata userToRemoveFromOrg)) of
        None \<Rightarrow> (Inl (HttpError 400 (UserWasntMigrated userId')), s)
      | Some provenance \<Rightarrow>
     if truthyBool (reverted provenance)
     then (Inl (HttpError 400 (UserAlreadyReverted userId')), s)
     else
     (case musername provenance of
        None \<Rightarrow> (Inl (HttpError 500 (NoNonOrgUsername (Some userId'))), s)
      | Some nonOrgUserName \<Rightarrow>
     if nonOrgUserName = [] then (Inl (HttpError 500 (NoNonOrgUsername (Some userId'))), s)
     else
     (let (teamsToBeRemovedFromOrg, s1) = updateTeams_remove userToRemoveFromOrg s;
          s2 = updateUser_remove userToRemoveFromOrg nonOrgUserName now s1;
          s3 = removeRedirect_user (Some nonOrgUserName) teamsToBeRemovedFromOrg s2
      in removeMembership targetOrgId userToRemoveFromOrg s3))))"

section \<open>Notions for the statements\<close>

text \<open>
  Names for what the theorems below speak about; none of them is a function of the
  source. \<open>requestedSlugOf\<close> reads \<open>metadata.requestedSlug\<close> of a team.
  \<open>migrationWrites\<close> is the store after the first four writes of \<open>migrateUserToOrg\<close>
  (user, teams, membership, redirects) and \<open>migratedStore\<close> the store after the fifth,
  the slug back-fill, whatever that one returns.
\<close>

definition requestedSlugOf :: "team \<Rightarrow> string option" where
  "requestedSlugOf t = (case tmetadata t of None \<Rightarrow> None | Some m \<Rightarrow> requestedSlug m)"

definition migrationWrites ::
  "env \<Rightarrow> string \<Rightarrow> user \<Rightarrow> team \<Rightarrow> int \<Rightarrow> string \<Rightarrow> string \<Rightarrow> MembershipRole \<Rightarrow> bool \<Rightarrow> store \<Rightarrow> store" where
  "migrationWrites e now u org targetOrgId tn n r a s =
     addRedirect e (Some n) org tn (teamsOfUser (uid u) s)
       (updateMembership targetOrgId u r a
          (snd (updateTeams targetOrgId u (updateUser u targetOrgId tn n now s))))"

definition migratedStore ::
  "env \<Rightarrow> string \<Rightarrow> user \<Rightarrow> team \<Rightarrow> int \<Rightarrow> string \<Rightarrow> string \<Rightarrow> MembershipRole \<Rightarrow> bool \<Rightarrow> store \<Rightarrow> store" where
  "migratedStore e now u org target tn n r a s =
     snd (setOrgSlugIfNotSet (slug org) (tmetadata org) target
            (migrationWrites e now u org target tn n r a s))"

text \<open>
  The rows of a migrated store: the metadata \<open>updateUser\<close> writes, the user row it
  leaves, a team row after \<open>updateTeams\<close> and after \<open>setOrgSlugIfNotSet\<close>.
\<close>

definition provenanceAt :: "string \<Rightarrow> string \<Rightarrow> user \<Rightarrow> userMetadata" where
  "provenanceAt n now u =
     (metadataOrEmpty (umetadata u))
       \<lparr>migratedTo := Some \<lparr>musername = Some n, reverted = None, revertTime = None,
                            lastMigrationTime = Some now\<rparr>\<rparr>"

definition migratedRow :: "int \<Rightarrow> int \<Rightarrow> string \<Rightarrow> userMetadata \<Rightarrow> user \<Rightarrow> user" where
  "migratedRow i target tn md x =
     (if uid x = i
      then x\<lparr>organizationId := Some target, username := Some tn, umetadata := Some md\<rparr>
      else x)"

definition reparentRow :: "int set \<Rightarrow> int \<Rightarrow> team \<Rightarrow> team" where
  "reparentRow ids target t = (if tid t \<in> ids then t\<lparr>parentId := Some target\<rparr> else t)"

definition backfillRow :: "team \<Rightarrow> int \<Rightarrow> team \<Rightarrow> team" where
  "backfillRow org target t =
     (if \<not> truthyStr (slug org) \<and> truthyStr (requestedSlugOf org) \<and> tid t = target
      then t\<lparr>slug := requestedSlugOf org\<rparr> else t)"

text \<open>
  Modelled from the spec: the store's unique constraints on a team's slug under its
  parent and on a username within an organization or, without organization, among the
  standalone users ("slug (nullable, unique)", "username ... unique within an
  organization scope or globally when organization is absent"); the Prisma schema that
  declares them is not part of these sources. \<open>slugClashAfter ids par ts\<close>: giving the
  teams \<open>ids\<close> the parent \<open>par\<close> would leave one of them with a slug that another team
  under that parent holds. \<open>backfillClash org target ids ts\<close>: once the teams \<open>ids\<close>
  are under \<open>target\<close>, giving the organization its requested slug would meet another
  team that holds that slug under the organization's parent. \<open>usernameTaken i n scope us\<close>:
  a user other than \<open>i\<close> holds the username \<open>n\<close> in the organization \<open>scope\<close>
  (among the standalone users when it is \<open>None\<close>).
\<close>

definition slugClashAfter :: "int set \<Rightarrow> int option \<Rightarrow> team list \<Rightarrow> bool" where
  "slugClashAfter ids par ts =
     (\<exists>t \<in> set ts. \<exists>t' \<in> set ts.
        tid t \<in> ids \<and> tid t' \<noteq> tid t \<and> truthyStr (slug t) \<and> slug t' = slug t
        \<and> (tid t' \<in> ids \<or> parentId t' = par))"

definition backfillClash :: "team \<Rightarrow> int \<Rightarrow> int set \<Rightarrow> team list \<Rightarrow> bool" where
  "backfillClash org target ids ts =
     (\<not> truthyStr (slug org) \<and> truthyStr (requestedSlugOf org)
      \<and> (\<exists>t' \<in> set ts. tid t' \<noteq> target \<and> slug t' = requestedSlugOf org
            \<and> (if tid t' \<in> ids then Some target else parentId t') = parentId org))"

definition usernameTaken :: "int \<Rightarrow> string \<Rightarrow> int option \<Rightarrow> user list \<Rightarrow> bool" where
  "usernameTaken i n scope us =
     (\<exists>w \<in> set us. uid w \<noteq> i \<and> username w = Some n \<and> organizationId w = scope)"

text \<open>A user row without the time of its last migration.\<close>

definition withoutMigrationTime :: "user \<Rightarrow> user" where
  "withoutMigrationTime x =
     x\<lparr>umetadata :=
         map_option
           (\<lambda>m. m\<lparr>migratedTo :=
                    map_option (\<lambda>p. p\<lparr>lastMigrationTime := None\<rparr>) (migratedTo m)\<rparr>)
           (umetadata x)\<rparr>"

text \<open>
  The URL \<open>addRedirect\<close> stores under a key, and what it means that the redirect of a
  key is settled in a store: there is a row with the key, and every such row holds that
  URL.
\<close>

definition redirectTarget :: "string \<Rightarrow> string \<Rightarrow> RedirectType \<Rightarrow> string \<Rightarrow> string" where
  "redirectTarget p tn ty k = (case ty of User \<Rightarrow> p @ ''/'' @ tn | Team \<Rightarrow> p @ ''/team/'' @ k)"

definition settled :: "string \<Rightarrow> string \<Rightarrow> RedirectType \<Rightarrow> string \<Rightarrow> store \<Rightarrow> bool" where
  "settled p tn ty k x =
     ((\<exists>r \<in> set (redirects x). redirectKey ty k r)
      \<and> (\<forall>r \<in> set (redirects x). redirectKey ty k r \<longrightarrow> toUrl r = redirectTarget p tn ty k))"

section \<open>Scenarios\<close>

text \<open>
  Concrete stores for the evaluations below. The organization \<open>acme\<close> (id 3) has no
  slug yet and requests the slug "acme"; \<open>sales\<close> (id 2) and \<open>draft\<close> (id 12) are plain
  teams, \<open>draft\<close> without slug; \<open>bob\<close> (id 7) is a standalone user and a member of both
  teams.
\<close>

definition exEnv :: env where
  "exEnv = \<lparr>getOrgUsernameFromEmail = (\<lambda>mail domain. takeWhile (\<lambda>c. c \<noteq> CHR ''@'') mail),
            getOrgFullOrigin = (\<lambda>sl. ''https://'' @ sl @ ''.cal.com'')\<rparr>"

definition acme :: team where
  "acme = \<lparr>tid = 3, slug = None, parentId = None,
           tmetadata = Some \<lparr>isOrganization = Some True, requestedSlug = Some ''acme'',
                              orgAutoAcceptEmail = None\<rparr>\<rparr>"

definition sales :: team where
  "sales = \<lparr>tid = 2, slug = Some ''sales'', parentId = None, tmetadata = None\<rparr>"

definition draft :: team where
  "draft = \<lparr>tid = 12, slug = None, parentId = None, tmetadata = None\<rparr>"

definition bob :: user where
  "bob = \<lparr>uid = 7, username = Some ''bob'', email = ''bob@example.com'',
          organizationId = None, umetadata = None\<rparr>"

definition store0 :: store where
  "store0 = \<lparr>users = [bob], teams = [acme, sales, draft],
     memberships = [\<lparr>userId = 7, teamId = 2, role = MEMBER, accepted = True\<rparr>,
                    \<lparr>userId = 7, teamId = 12, role = OWNER, accepted = True\<rparr>],
     redirects = []\<rparr>"

text \<open>
  \<open>store1\<close> is \<open>store0\<close> after bob has been migrated into \<open>acme\<close> under the
  username "bob" at time "t1", and \<open>store2\<close> is \<open>store1\<close> after that migration has
  been reverted at time "t2"; \<open>storePartial\<close> is \<open>store1\<close> without bob's membership
  row in \<open>acme\<close>; \<open>storeDup\<close> has a second standalone user named "bob";
  \<open>storeRedirect\<close> is \<open>store0\<close> with a redirect for the slug of \<open>sales\<close>; in
  \<open>storeMembers\<close> carol (id 8) is in \<open>acme\<close> without ever having been migrated,
  dave (id 9) is in \<open>acme\<close> with a provenance record marked reverted, and erin (id 10)
  is in another organization (id 5).
\<close>

definition bobInAcme :: user where
  "bobInAcme = \<lparr>uid = 7, username = Some ''bob'', email = ''bob@example.com'',
      organizationId = Some 3,
      umetadata = Some \<lparr>migratedTo = Some \<lparr>musername = Some ''bob'', reverted = None,
                             revertTime = None, lastMigrationTime = Some ''t1''\<rparr>,
                         otherKeys = []\<rparr>\<rparr>"

definition store1 :: store where
  "store1 = \<lparr>users = [bobInAcme],
     teams = [acme\<lparr>slug := Some ''acme''\<rparr>, sales\<lparr>parentId := Some 3\<rparr>,
              draft\<lparr>parentId := Some 3\<rparr>],
     memberships = [\<lparr>userId = 7, teamId = 2, role = MEMBER, accepted = True\<rparr>,
                    \<lparr>userId = 7, teamId = 12, role = OWNER, accepted = True\<rparr>,
                    \<lparr>userId = 7, teamId = 3, role = MEMBER, accepted = True\<rparr>],
     redirects = [\<lparr>rtype = User, rfrom = ''bob'', fromOrgId = 0,
                    toUrl = ''https://acme.cal.com/bob''\<rparr>,
                  \<lparr>rtype = Team, rfrom = ''sales'', fromOrgId = 0,
                    toUrl = ''https://acme.cal.com/team/sales''\<rparr>]\<rparr>"

definition storePartial :: store where
  "storePartial = store1\<lparr>memberships :=
     [\<lparr>userId = 7, teamId = 2, role = MEMBER, accepted = True\<rparr>,
      \<lparr>userId = 7, teamId = 12, role = OWNER, accepted = True\<rparr>]\<rparr>"

definition storeDup :: store where
  "storeDup = store0\<lparr>users := [bob, bob\<lparr>uid := 9, email := ''robert@example.com''\<rparr>]\<rparr>"

definition storeRedirect :: store where
  "storeRedirect = store0\<lparr>redirects :=
     [\<lparr>rtype = Team, rfrom = ''sales'', fromOrgId = 0,
        toUrl = ''https://acme.cal.com/team/sales''\<rparr>]\<rparr>"

definition carol :: user where
  "carol = \<lparr>uid = 8, username = Some ''carol'', email = ''carol@example.com'',
      organizationId = Some 3, umetadata = None\<rparr>"

definition dave :: user where
  "dave = \<lparr>uid = 9, username = Some ''dave'', email = ''dave@example.com'',
      organizationId = Some 3,
      umetadata = Some \<lparr>migratedTo = Some \<lparr>musername = None, reverted = Some True,
                             revertTime = Some ''t0'', lastMigrationTime = None\<rparr>,
                         otherKeys = []\<rparr>\<rparr>"

definition erin :: user where
  "erin = \<lparr>uid = 10, username = Some ''erin'', email = ''erin@example.com'',
      organizationId = Some 5, umetadata = None\<rparr>"

definition storeMembers :: store where
  "storeMembers = store0\<lparr>users := [bob, carol, dave, erin]\<rparr>"





section \<open>Facts about the store operations\<close>

lemma updateUserRow_proj [simp]:
  "users (updateUserRow i f s) = map (\<lambda>u. if uid u = i then f u else u) (users s)"
  "teams (updateUserRow i f s) = teams s"
  "memberships (updateUserRow i f s) = memberships s"
  "redirects (updateUserRow i f s) = redirects s"
  by (simp_all add: updateUserRow_def)

lemma updateTeamRow_proj [simp]:
  "users (updateTeamRow i f s) = users s"
  "teams (updateTeamRow i f s) = map (\<lambda>t. if tid t = i then f t else t) (teams s)"
  "memberships (updateTeamRow i f s) = memberships s"
  "redirects (updateTeamRow i f s) = redirects s"
  by (simp_all add: updateTeamRow_def)

lemma updateManyTeams_proj [simp]:
  "users (updateManyTeams ids f s) = users s"
  "teams (updateManyTeams ids f s) = map (\<lambda>t. if tid t \<in> set ids then f t else t) (teams s)"
  "memberships (updateManyTeams ids f s) = memberships s"
  "redirects (updateManyTeams ids f s) = redirects s"
  by (simp_all add: updateManyTeams_def)

lemma upsertMembership_proj [simp]:
  "users (upsertMembership u t r a s) = users s"
  "teams (upsertMembership u t r a s) = teams s"
  "redirects (upsertMembership u t r a s) = redirects s"
  by (simp_all add: upsertMembership_def)

lemma upsertRedirect_proj [simp]:
  "users (upsertRedirect ty f url s) = users s"
  "teams (upsertRedirect ty f url s) = teams s"
  "memberships (upsertRedirect ty f url s) = memberships s"
  by (simp_all add: upsertRedirect_def)

lemma deleteManyRedirects_proj [simp]:
  "users (deleteManyRedirects ty f s) = users s"
  "teams (deleteManyRedirects ty f s) = teams s"
  "memberships (deleteManyRedirects ty f s) = memberships s"
  "redirects (deleteManyRedirects ty f s) = filter (\<lambda>r. \<not> redirectKey ty f r) (redirects s)"
  by (simp_all add: deleteManyRedirects_def)

lemma addTeamRedirects_proj [simp]:
  "users (addTeamRedirects p ts s) = users s"
  "teams (addTeamRedirects p ts s) = teams s"
  "memberships (addTeamRedirects p ts s) = memberships s"
  by (induction p ts s rule: addTeamRedirects.induct; simp split: option.splits)+

lemma removeTeamRedirects_proj [simp]:
  "users (removeTeamRedirects ts s) = users s"
  "teams (removeTeamRedirects ts s) = teams s"
  "memberships (removeTeamRedirects ts s) = memberships s"
  by (induction ts s rule: removeTeamRedirects.induct; simp split: option.splits)+

lemma addRedirect_proj [simp]:
  "users (addRedirect e n org tn ts s) = users s"
  "teams (addRedirect e n org tn ts s) = teams s"
  "memberships (addRedirect e n org tn ts s) = memberships s"
  by (simp_all add: addRedirect_def Let_def split: option.splits)

lemma removeRedirect_user_proj [simp]:
  "users (removeRedirect_user n ts s) = users s"
  "teams (removeRedirect_user n ts s) = teams s"
  "memberships (removeRedirect_user n ts s) = memberships s"
  by (simp_all add: removeRedirect_user_def split: option.splits)

lemma find_uid_map:
  assumes "\<And>u. uid (f u) = uid u"
  shows "find (\<lambda>u. uid u = i) (map (\<lambda>u. if uid u = i then f u else u) xs)
           = map_option f (find (\<lambda>u. uid u = i) xs)"
  by (induction xs) (simp_all add: assms)

lemma find_Some_uid: "find (\<lambda>u. uid u = i) xs = Some u \<Longrightarrow> uid u = i"
  by (induction xs) (auto split: if_splits)

lemma teamsOfUser_no_memberships:
  "filter (\<lambda>m. userId m = i) (memberships s) = [] \<Longrightarrow> teamsOfUser i s = []"
  by (simp add: teamsOfUser_def)

lemma updateTeams_remove_proj [simp]:
  "fst (updateTeams_remove u s) = teamsOfUser (uid u) s"
  "users (snd (updateTeams_remove u s)) = users s"
  "memberships (snd (updateTeams_remove u s)) = memberships s"
  "redirects (snd (updateTeams_remove u s)) = redirects s"
  by (simp_all add: updateTeams_remove_def Let_def)

lemma teams_updateTeams_remove:
  "teams (snd (updateTeams_remove u s)) =
     map (\<lambda>t. if tid t \<in> tid ` set (teamsOfUser (uid u) s) then t\<lparr>parentId := None\<rparr> else t) (teams s)"
  by (simp add: updateTeams_remove_def Let_def teamsOfUser_no_memberships)

lemma updateTeams_proj [simp]:
  "fst (updateTeams target u s) = teamsOfUser (uid u) s"
  "users (snd (updateTeams target u s)) = users s"
  "memberships (snd (updateTeams target u s)) = memberships s"
  "redirects (snd (updateTeams target u s)) = redirects s"
  by (simp_all add: updateTeams_def Let_def)

lemma teams_updateTeams:
  "teams (snd (updateTeams target u s)) =
     map (\<lambda>t. if tid t \<in> tid ` set (teamsOfUser (uid u) s) then t\<lparr>parentId := Some target\<rparr> else t) (teams s)"
  by (simp add: updateTeams_def Let_def teamsOfUser_no_memberships)

lemma updateUser_remove_proj [simp]:
  "teams (updateUser_remove u n now s) = teams s"
  "memberships (updateUser_remove u n now s) = memberships s"
  "redirects (updateUser_remove u n now s) = redirects s"
  by (simp_all add: updateUser_remove_def)

lemma updateUser_proj [simp]:
  "teams (updateUser u target tn n now s) = teams s"
  "memberships (updateUser u target tn n now s) = memberships s"
  "redirects (updateUser u target tn n now s) = redirects s"
  by (simp_all add: updateUser_def)

lemma removeFromOrg_writes:
  assumes "findUserById userId' s = Some u"
      and "organizationId u = Some targetOrgId"
      and "migratedTo (metadataOrEmpty (umetadata u)) = Some p"
      and "\<not> truthyBool (reverted p)"
      and "musername p = Some n" and "n \<noteq> []"
  shows "removeFromOrg now targetOrgId userId' s =
           removeMembership targetOrgId u
             (removeRedirect_user (Some n) (teamsOfUser (uid u) s)
                (updateUser_remove u n now (snd (updateTeams_remove u s))))"
  using assms by (simp add: removeFromOrg_def Let_def split_beta)

lemma addTeamRedirects_skips:
  "addTeamRedirects p ts s = addTeamRedirects p (filter (\<lambda>t. truthyStr (slug t)) ts) s"
  by (induction p ts s rule: addTeamRedirects.induct) (simp_all split: option.splits)

lemma removeTeamRedirects_skips:
  "removeTeamRedirects ts s = removeTeamRedirects (filter (\<lambda>t. truthyStr (slug t)) ts) s"
  by (induction ts s rule: removeTeamRedirects.induct) (simp_all split: option.splits)




subsection \<open>The run of a migration whose checks pass\<close>

lemma teamsOfUser_cong:
  "memberships s = memberships s' \<Longrightarrow> teams s = teams s' \<Longrightarrow> teamsOfUser i s = teamsOfUser i s'"
  by (simp add: teamsOfUser_def)

lemma setOrgSlugIfNotSet_cases:
  "setOrgSlugIfNotSet sl md target s =
     (if truthyStr sl then (Inr (), s)
      else if truthyStr (case md of None \<Rightarrow> None | Some m \<Rightarrow> requestedSlug m)
      then (Inr (), setOrgSlug target (case (case md of None \<Rightarrow> None | Some m \<Rightarrow> requestedSlug m) of Some x \<Rightarrow> x | None \<Rightarrow> []) s)
      else (Inl (HttpError 400 (OrgHasNoSlug target)), s))"
  by (simp add: setOrgSlugIfNotSet_def split: option.splits)

lemma migrateUserToOrg_run:
  assumes "assertUserIdOrUserName userId' userName = Inr ()"
      and "findTeamById target s = Some org" and "isOrg (tmetadata org)"
      and "getUniqueUserThatDoesntBelongToOrg userName userId' target s = Inr (Some u)"
      and "\<not> (truthyNum (organizationId u) \<and> organizationId u \<noteq> Some target)"
      and "\<not> (case find (\<lambda>w. username w = Some (resolveTargetOrgUsername e tnArg u org)
                      \<and> organizationId w = Some target) (users s) of
                None \<Rightarrow> False | Some w \<Rightarrow> Some (uid w) \<noteq> userId')"
      and "orElse (migratedFromUsername u) (username u) = Some n" and "n \<noteq> []"
  shows "migrateUserToOrg e now userId' userName target tnArg r a s =
           setOrgSlugIfNotSet (slug org) (tmetadata org) target
             (migrationWrites e now u org target (resolveTargetOrgUsername e tnArg u org) n r
                (case a of None \<Rightarrow> True | Some b \<Rightarrow> b) s)"
proof -
  have t: "teamsOfUser (uid u) (updateUser u target tn n now s) = teamsOfUser (uid u) s" for tn
    by (rule teamsOfUser_cong) simp_all
  show ?thesis
    using assms
    by (simp add: migrateUserToOrg_def getTeamOrThrowError_def assertUserPartOfOtherOrg_def
          assertUserPartOfOrgAndRemigrationAllowed_def Let_def split_beta migrationWrites_def t)
qed

lemma migrateUserToOrg_success:
  assumes "migrateUserToOrg e now userId' userName target tnArg r a s = (Inr (), s')"
  shows "\<exists>org u n.
      assertUserIdOrUserName userId' userName = Inr ()
    \<and> findTeamById target s = Some org \<and> isOrg (tmetadata org)
    \<and> getUniqueUserThatDoesntBelongToOrg userName userId' target s = Inr (Some u)
    \<and> \<not> (truthyNum (organizationId u) \<and> organizationId u \<noteq> Some target)
    \<and> \<not> (case find (\<lambda>w. username w = Some (resolveTargetOrgUsername e tnArg u org)
                      \<and> organizationId w = Some target) (users s) of
                None \<Rightarrow> False | Some w \<Rightarrow> Some (uid w) \<noteq> userId')
    \<and> orElse (migratedFromUsername u) (username u) = Some n \<and> n \<noteq> []"
  using assms
  unfolding migrateUserToOrg_def getTeamOrThrowError_def assertUserPartOfOtherOrg_def
    assertUserPartOfOrgAndRemigrationAllowed_def Let_def
  by (auto split: sum.splits option.splits if_splits)

subsection \<open>Upserting a membership twice\<close>

lemma upsertMembership_cong:
  "memberships x = memberships y \<Longrightarrow>
   memberships (upsertMembership u t r a x) = memberships (upsertMembership u t r a y)"
  by (simp add: upsertMembership_def)

lemma upsertMembership_present:
  "\<exists>m \<in> set (memberships (upsertMembership u t r a x)). userId m = u \<and> teamId m = t"
proof (cases "\<exists>m \<in> set (memberships x). userId m = u \<and> teamId m = t")
  case True
  then obtain m where m: "m \<in> set (memberships x)" "userId m = u" "teamId m = t"
    by blast
  define h where "h = (\<lambda>m::membership. if userId m = u \<and> teamId m = t
                            then m\<lparr>role := r, accepted := a\<rparr> else m)"
  have eq: "memberships (upsertMembership u t r a x) = map h (memberships x)"
    using True by (simp add: upsertMembership_def h_def)
  have "h m \<in> set (map h (memberships x))"
    unfolding set_map using m(1) by (rule imageI)
  moreover have "userId (h m) = u \<and> teamId (h m) = t"
    using m(2,3) by (simp add: h_def)
  ultimately show ?thesis
    unfolding eq by blast
next
  case False
  then have "memberships (upsertMembership u t r a x) =
      memberships x @ [\<lparr>userId = u, teamId = t, role = r, accepted = a\<rparr>]"
    by (simp add: upsertMembership_def)
  then show ?thesis
    by simp
qed

lemma upsertMembership_settled:
  assumes "m \<in> set (memberships (upsertMembership u t r a x))"
      and "userId m = u" and "teamId m = t"
  shows "role m = r \<and> accepted m = a"
proof (cases "\<exists>m \<in> set (memberships x). userId m = u \<and> teamId m = t")
  case True
  define h where "h = (\<lambda>m::membership. if userId m = u \<and> teamId m = t
                            then m\<lparr>role := r, accepted := a\<rparr> else m)"
  have eq: "memberships (upsertMembership u t r a x) = map h (memberships x)"
    using True by (simp add: upsertMembership_def h_def)
  from assms(1) obtain m0 where m0: "m0 \<in> set (memberships x)" "m = h m0"
    unfolding eq set_map by blast
  show ?thesis
  proof (cases "userId m0 = u \<and> teamId m0 = t")
    case True
    then show ?thesis by (simp add: m0(2) h_def)
  next
    case False
    then have "m = m0" unfolding m0(2) h_def by (simp only: if_False)
    with False assms(2,3) show ?thesis by simp
  qed
next
  case False
  then have "memberships (upsertMembership u t r a x) =
      memberships x @ [\<lparr>userId = u, teamId = t, role = r, accepted = a\<rparr>]"
    by (simp add: upsertMembership_def)
  with assms(1) have "m \<in> set (memberships x)
      \<or> m = \<lparr>userId = u, teamId = t, role = r, accepted = a\<rparr>"
    by auto
  then show ?thesis
  proof
    assume "m \<in> set (memberships x)"
    with False assms(2,3) show ?thesis by blast
  next
    assume "m = \<lparr>userId = u, teamId = t, role = r, accepted = a\<rparr>"
    then show ?thesis by simp
  qed
qed

lemma upsertMembership_fixed:
  assumes "\<exists>m \<in> set (memberships x). userId m = u \<and> teamId m = t"
      and "\<And>m. m \<in> set (memberships x) \<Longrightarrow> userId m = u \<Longrightarrow> teamId m = t
             \<Longrightarrow> role m = r \<and> accepted m = a"
  shows "upsertMembership u t r a x = x"
proof -
  have "map (\<lambda>m. if userId m = u \<and> teamId m = t then m\<lparr>role := r, accepted := a\<rparr> else m)
          (memberships x) = memberships x"
    by (rule map_idI) (simp add: assms(2))
  then show ?thesis
    using assms(1) by (simp add: upsertMembership_def)
qed

lemma upsertMembership_idem:
  "upsertMembership u t r a (upsertMembership u t r a x) = upsertMembership u t r a x"
  by (rule upsertMembership_fixed [OF upsertMembership_present])
     (rule upsertMembership_settled)

subsection \<open>The redirects depend on the slugs and the redirect table only\<close>

lemma upsertRedirect_cong:
  "redirects x = redirects y \<Longrightarrow>
   redirects (upsertRedirect ty k v x) = redirects (upsertRedirect ty k v y)"
  by (simp add: upsertRedirect_def)

lemma addTeamRedirects_cong:
  "redirects x = redirects y \<Longrightarrow> map slug ts = map slug ts' \<Longrightarrow>
   redirects (addTeamRedirects p ts x) = redirects (addTeamRedirects p ts' y)"
proof (induction ts arbitrary: ts' x y)
  case Nil
  then show ?case by simp
next
  case (Cons t ts)
  then obtain t' ts'' where ts': "ts' = t' # ts''" and sl: "slug t' = slug t"
      and rest: "map slug ts = map slug ts''"
    by (cases ts') auto
  show ?case
  proof (cases "truthyStr (slug t)")
    case False
    then show ?thesis
      using Cons.IH [OF Cons.prems(1) rest] sl
      by (cases "slug t") (simp_all add: ts')
  next
    case True
    then obtain k where k: "slug t = Some k" "k \<noteq> []"
      by (cases "slug t") auto
    have "redirects (upsertRedirect Team k (p @ ''/team/'' @ k) x)
            = redirects (upsertRedirect Team k (p @ ''/team/'' @ k) y)"
      by (rule upsertRedirect_cong [OF Cons.prems(1)])
    from Cons.IH [OF this rest] show ?thesis
      using k sl by (simp add: ts')
  qed
qed

lemma addRedirect_cong:
  assumes "redirects x = redirects y" and "map slug ts = map slug ts'"
      and "orElse (slug org) (requestedSlugOf org) = orElse (slug org') (requestedSlugOf org')"
  shows "redirects (addRedirect e n org tn ts x) = redirects (addRedirect e n org' tn ts' y)"
proof -
  have "redirects (addTeamRedirects p ts (upsertRedirect User k v x))
          = redirects (addTeamRedirects p ts' (upsertRedirect User k v y))" for p k v
    by (rule addTeamRedirects_cong [OF upsertRedirect_cong [OF assms(1)] assms(2)])
  then show ?thesis
    using assms(1,3)
    by (simp add: addRedirect_def Let_def requestedSlugOf_def split: option.splits)
qed

subsection \<open>The tables after the writes of a migration\<close>

lemma migrationWrites_users:
  "users (migrationWrites e now u org target tn n r a s) =
     map (\<lambda>x. if uid x = uid u
               then x\<lparr>organizationId := Some target, username := Some tn,
                      umetadata := Some ((metadataOrEmpty (umetadata u))
                        \<lparr>migratedTo := Some \<lparr>musername = Some n, reverted = None,
                            revertTime = None, lastMigrationTime = Some now\<rparr>\<rparr>)\<rparr>
               else x) (users s)"
  by (simp add: migrationWrites_def updateMembership_def updateUser_def)

lemma migrationWrites_teams:
  "teams (migrationWrites e now u org target tn n r a s) =
     map (\<lambda>t. if tid t \<in> tid ` set (teamsOfUser (uid u) s)
               then t\<lparr>parentId := Some target\<rparr> else t) (teams s)"
proof -
  have t: "teamsOfUser (uid u) (updateUser u target tn n now s) = teamsOfUser (uid u) s"
    by (rule teamsOfUser_cong) simp_all
  show ?thesis
    by (simp add: migrationWrites_def updateMembership_def teams_updateTeams t)
qed

lemma migrationWrites_memberships:
  "memberships (migrationWrites e now u org target tn n r a s) =
     memberships (upsertMembership (uid u) target r a s)"
  unfolding migrationWrites_def updateMembership_def
  by (simp, rule upsertMembership_cong, simp)

lemma migrationWrites_redirects:
  "redirects (migrationWrites e now u org target tn n r a s) =
     redirects (addRedirect e (Some n) org tn (teamsOfUser (uid u) s) s)"
  unfolding migrationWrites_def
  by (rule addRedirect_cong) (simp_all add: updateMembership_def)

subsection \<open>Adding the same redirects twice\<close>

lemma redirectKey_toUrl [simp]: "redirectKey ty k (r\<lparr>toUrl := v\<rparr>) = redirectKey ty k r"
  by (simp add: redirectKey_def)

lemma redirectKey_new [simp]:
  "redirectKey ty k \<lparr>rtype = ty', rfrom = k', fromOrgId = 0, toUrl = v\<rparr> = (ty = ty' \<and> k = k')"
  by (auto simp: redirectKey_def)

lemma redirects_upsertRedirect:
  "redirects (upsertRedirect ty k v x) =
     (if \<exists>r \<in> set (redirects x). redirectKey ty k r
      then map (\<lambda>r. if redirectKey ty k r then r\<lparr>toUrl := v\<rparr> else r) (redirects x)
      else redirects x @ [\<lparr>rtype = ty, rfrom = k, fromOrgId = 0, toUrl = v\<rparr>])"
  by (simp add: upsertRedirect_def)

lemma settled_upsert_same:
  "settled p tn ty k (upsertRedirect ty k (redirectTarget p tn ty k) x)"
proof (cases "\<exists>r \<in> set (redirects x). redirectKey ty k r")
  case True
  then obtain r0 where r0: "r0 \<in> set (redirects x)" "redirectKey ty k r0"
    by blast
  define h where "h = (\<lambda>r::tempOrgRedirect. if redirectKey ty k r
                         then r\<lparr>toUrl := redirectTarget p tn ty k\<rparr> else r)"
  have eq: "redirects (upsertRedirect ty k (redirectTarget p tn ty k) x) = map h (redirects x)"
    using True by (simp add: redirects_upsertRedirect h_def)
  have key: "redirectKey ty k (h r) = redirectKey ty k r" for r
    by (simp add: h_def)
  have url: "redirectKey ty k r \<Longrightarrow> toUrl (h r) = redirectTarget p tn ty k" for r
    by (simp add: h_def)
  have "\<exists>r \<in> set (map h (redirects x)). redirectKey ty k r"
    using r0 key by (intro bexI [where x = "h r0"]) simp_all
  moreover have "\<forall>r \<in> set (map h (redirects x)).
      redirectKey ty k r \<longrightarrow> toUrl r = redirectTarget p tn ty k"
    using key url by auto
  ultimately show ?thesis
    unfolding settled_def eq by blast
next
  case False
  then have eq: "redirects (upsertRedirect ty k (redirectTarget p tn ty k) x) =
      redirects x @ [\<lparr>rtype = ty, rfrom = k, fromOrgId = 0, toUrl = redirectTarget p tn ty k\<rparr>]"
    by (simp add: redirects_upsertRedirect)
  show ?thesis
    unfolding settled_def eq using False by auto
qed

lemma settled_upsert_other:
  assumes "settled p tn ty k x"
  shows "settled p tn ty k (upsertRedirect ty' k' (redirectTarget p tn ty' k') x)"
proof (cases "ty' = ty \<and> k' = k")
  case True
  then show ?thesis
    using settled_upsert_same [of p tn ty k x] by simp
next
  case other: False
  have nk: "redirectKey ty k r \<Longrightarrow> \<not> redirectKey ty' k' r" for r
    using other by (auto simp: redirectKey_def)
  show ?thesis
  proof (cases "\<exists>r \<in> set (redirects x). redirectKey ty' k' r")
    case True
    define h where "h = (\<lambda>r::tempOrgRedirect. if redirectKey ty' k' r
                           then r\<lparr>toUrl := redirectTarget p tn ty' k'\<rparr> else r)"
    have eq: "redirects (upsertRedirect ty' k' (redirectTarget p tn ty' k') x) = map h (redirects x)"
      using True by (simp add: redirects_upsertRedirect h_def)
    have key: "redirectKey ty k (h r) = redirectKey ty k r" for r
      by (simp add: h_def)
    have same: "redirectKey ty k r \<Longrightarrow> h r = r" for r
      using nk by (simp add: h_def)
    from assms obtain r0 where r0: "r0 \<in> set (redirects x)" "redirectKey ty k r0"
      unfolding settled_def by blast
    have "\<exists>r \<in> set (map h (redirects x)). redirectKey ty k r"
      using r0 key by (intro bexI [where x = "h r0"]) simp_all
    moreover have "\<forall>r \<in> set (map h (redirects x)).
        redirectKey ty k r \<longrightarrow> toUrl r = redirectTarget p tn ty k"
    proof (intro ballI impI)
      fix r assume "r \<in> set (map h (redirects x))" and k: "redirectKey ty k r"
      then obtain r1 where r1: "r1 \<in> set (redirects x)" "r = h r1" by auto
      with k key have "redirectKey ty k r1" by simp
      with r1 same assms show "toUrl r = redirectTarget p tn ty k"
        unfolding settled_def by simp
    qed
    ultimately show ?thesis
      unfolding settled_def eq by blast
  next
    case False
    then have eq: "redirects (upsertRedirect ty' k' (redirectTarget p tn ty' k') x) =
        redirects x @ [\<lparr>rtype = ty', rfrom = k', fromOrgId = 0,
                         toUrl = redirectTarget p tn ty' k'\<rparr>]"
      by (simp add: redirects_upsertRedirect)
    show ?thesis
      using assms other unfolding settled_def eq by auto
  qed
qed

lemma upsert_settled_id:
  assumes "settled p tn ty k x"
  shows "upsertRedirect ty k (redirectTarget p tn ty k) x = x"
proof -
  have ex: "\<exists>r \<in> set (redirects x). redirectKey ty k r"
    using assms unfolding settled_def by blast
  have "map (\<lambda>r. if redirectKey ty k r then r\<lparr>toUrl := redirectTarget p tn ty k\<rparr> else r)
          (redirects x) = redirects x"
  proof (rule map_idI)
    fix r assume "r \<in> set (redirects x)"
    with assms have "redirectKey ty k r \<Longrightarrow> toUrl r = redirectTarget p tn ty k"
      unfolding settled_def by blast
    then show "(if redirectKey ty k r then r\<lparr>toUrl := redirectTarget p tn ty k\<rparr> else r) = r"
      by (cases "redirectKey ty k r") simp_all
  qed
  then show ?thesis
    using ex by (simp add: upsertRedirect_def)
qed

lemma addTeamRedirects_step:
  "addTeamRedirects p (t # ts) x =
     (if truthyStr (slug t)
      then addTeamRedirects p ts
             (upsertRedirect Team (case slug t of Some k \<Rightarrow> k | None \<Rightarrow> [])
                (redirectTarget p tn Team (case slug t of Some k \<Rightarrow> k | None \<Rightarrow> [])) x)
      else addTeamRedirects p ts x)"
  by (cases "slug t") (simp_all add: redirectTarget_def)

lemma settled_addTeamRedirects:
  "settled p tn ty k x \<Longrightarrow> settled p tn ty k (addTeamRedirects p ts x)"
proof (induction ts arbitrary: x)
  case Nil
  then show ?case by simp
next
  case (Cons t ts)
  show ?case
    unfolding addTeamRedirects_step [where tn = tn]
    using Cons.IH [OF settled_upsert_other [OF Cons.prems]] Cons.IH [OF Cons.prems]
    by simp
qed

lemma addTeamRedirects_settles:
  "t \<in> set ts \<Longrightarrow> slug t = Some k \<Longrightarrow> k \<noteq> [] \<Longrightarrow> settled p tn Team k (addTeamRedirects p ts x)"
proof (induction ts arbitrary: x)
  case Nil
  then show ?case by simp
next
  case (Cons t' ts)
  show ?case
  proof (cases "t = t'")
    case True
    have "settled p tn Team k (addTeamRedirects p ts
            (upsertRedirect Team k (redirectTarget p tn Team k) x))"
      by (rule settled_addTeamRedirects [OF settled_upsert_same])
    then show ?thesis
      unfolding addTeamRedirects_step [where tn = tn] using True Cons.prems(2,3) by simp
  next
    case False
    with Cons.prems(1) have "t \<in> set ts" by simp
    from Cons.IH [OF this Cons.prems(2,3)] show ?thesis
      unfolding addTeamRedirects_step [where tn = tn] by simp
  qed
qed

lemma addTeamRedirects_settled_id:
  "(\<And>t k. t \<in> set ts \<Longrightarrow> slug t = Some k \<Longrightarrow> k \<noteq> [] \<Longrightarrow> settled p tn Team k x)
   \<Longrightarrow> addTeamRedirects p ts x = x"
proof (induction ts)
  case Nil
  then show ?case by simp
next
  case (Cons t ts)
  have rest: "addTeamRedirects p ts x = x"
    by (rule Cons.IH) (rule Cons.prems, simp_all)
  show ?case
  proof (cases "truthyStr (slug t)")
    case False
    then show ?thesis
      unfolding addTeamRedirects_step [where tn = tn] using rest by simp
  next
    case True
    then obtain k where k: "slug t = Some k" "k \<noteq> []"
      by (cases "slug t") auto
    have "settled p tn Team k x"
      by (rule Cons.prems [OF _ k]) simp
    then have "upsertRedirect Team k (redirectTarget p tn Team k) x = x"
      by (rule upsert_settled_id)
    then show ?thesis
      unfolding addTeamRedirects_step [where tn = tn] using rest k by simp
  qed
qed

lemma addRedirect_idem:
  "addRedirect e n org tn ts (addRedirect e n org tn ts x) = addRedirect e n org tn ts x"
proof (cases "truthyStr n \<and> truthyStr (orElse (slug org) (requestedSlugOf org))")
  case False
  then show ?thesis
    by (auto simp: addRedirect_def requestedSlugOf_def split: option.splits)
next
  case True
  then obtain nm os where nm: "n = Some nm" "nm \<noteq> []"
      and os: "orElse (slug org) (requestedSlugOf org) = Some os" "os \<noteq> []"
    by (cases n; cases "orElse (slug org) (requestedSlugOf org)") auto
  define p where "p = getOrgFullOrigin e os"
  define y where "y = addTeamRedirects p ts (upsertRedirect User nm (redirectTarget p tn User nm) x)"
  have run: "addRedirect e n org tn ts z =
      addTeamRedirects p ts (upsertRedirect User nm (redirectTarget p tn User nm) z)" for z
    using nm os by (simp add: addRedirect_def requestedSlugOf_def p_def redirectTarget_def Let_def)
  have u: "settled p tn User nm y"
    unfolding y_def by (rule settled_addTeamRedirects [OF settled_upsert_same])
  have t: "settled p tn Team k y" if "t \<in> set ts" "slug t = Some k" "k \<noteq> []" for t k
    unfolding y_def using that by (rule addTeamRedirects_settles)
  have "addTeamRedirects p ts (upsertRedirect User nm (redirectTarget p tn User nm) y) = y"
    unfolding upsert_settled_id [OF u]
    by (rule addTeamRedirects_settled_id [where tn = tn]) (rule t)
  then show ?thesis
    unfolding run y_def .
qed

subsection \<open>The slug back-fill; lookups after an update\<close>

lemma setOrgSlugIfNotSet_proj [simp]:
  "users (snd (setOrgSlugIfNotSet sl md target x)) = users x"
  "memberships (snd (setOrgSlugIfNotSet sl md target x)) = memberships x"
  "redirects (snd (setOrgSlugIfNotSet sl md target x)) = redirects x"
  by (simp_all add: setOrgSlugIfNotSet_cases setOrgSlug_def)

lemma setOrgSlugIfNotSet_teams:
  "teams (snd (setOrgSlugIfNotSet (slug org) (tmetadata org) target x)) =
     map (\<lambda>t. if \<not> truthyStr (slug org) \<and> truthyStr (requestedSlugOf org) \<and> tid t = target
               then t\<lparr>slug := requestedSlugOf org\<rparr> else t) (teams x)"
  by (cases "requestedSlugOf org")
     (auto simp: setOrgSlugIfNotSet_cases setOrgSlug_def requestedSlugOf_def)

lemma setOrgSlugIfNotSet_ok:
  "fst (setOrgSlugIfNotSet (slug org) (tmetadata org) target x) = Inr ()
     \<longleftrightarrow> truthyStr (slug org) \<or> truthyStr (requestedSlugOf org)"
  by (simp add: setOrgSlugIfNotSet_cases requestedSlugOf_def)

lemma find_tid_map:
  assumes "\<And>t. tid (h t) = tid t"
  shows "find (\<lambda>t. tid t = i) (map h ts) = map_option h (find (\<lambda>t. tid t = i) ts)"
  by (induction ts) (simp_all add: assms)

lemma find_Some_set: "find P xs = Some x \<Longrightarrow> x \<in> set xs \<and> P x"
  by (induction xs) (auto split: if_splits)

lemma only_row_of_id:
  assumes "distinct (map tid ts)" and "find (\<lambda>t. tid t = i) ts = Some org"
      and "t \<in> set ts" and "tid t = i"
  shows "t = org"
proof -
  have "org \<in> set ts" "tid org = i"
    using find_Some_set [OF assms(2)] by simp_all
  moreover have "inj_on tid (set ts)"
    using assms(1) by (simp add: distinct_map)
  ultimately show ?thesis
    using assms(3,4) by (auto dest: inj_onD)
qed

lemma find_holder_after_update:
  assumes "\<And>w. find P xs = Some w \<Longrightarrow> uid w = i"
      and "\<exists>x \<in> set xs. uid x = i"
      and "\<And>x. uid x = i \<Longrightarrow> P (g x) \<and> uid (g x) = i"
      and "\<And>x. uid x \<noteq> i \<Longrightarrow> g x = x"
  shows "\<exists>w. find P (map g xs) = Some w \<and> uid w = i"
  using assms(1,2)
proof (induction xs)
  case Nil
  then show ?case by simp
next
  case (Cons x xs)
  show ?case
  proof (cases "uid x = i")
    case True
    then show ?thesis
      using assms(3) [of x] by simp
  next
    case False
    then have gx: "g x = x" by (rule assms(4))
    have np: "\<not> P x"
      using Cons.prems(1) [of x] False by auto
    have "\<exists>w. find P (map g xs) = Some w \<and> uid w = i"
    proof (rule Cons.IH)
      fix w assume "find P xs = Some w"
      then show "uid w = i" using Cons.prems(1) [of w] np by simp
    next
      show "\<exists>x \<in> set xs. uid x = i" using Cons.prems(2) False by simp
    qed
    then show ?thesis
      using gx np by simp
  qed
qed

lemma teamsOfUser_filter:
  "teamsOfUser i x =
     filter (\<lambda>t. tid t \<in> teamId ` {m \<in> set (memberships x). userId m = i}
                  \<and> \<not> isOrg (tmetadata t)) (teams x)"
  by (simp add: teamsOfUser_def Let_def conj_commute)

lemma member_teams_upsertMembership:
  "teamId ` {m \<in> set (memberships (upsertMembership i target r a x)). userId m = i}
     = insert target (teamId ` {m \<in> set (memberships x). userId m = i})"
proof (cases "\<exists>m \<in> set (memberships x). userId m = i \<and> teamId m = target")
  case True
  define h where "h = (\<lambda>m::membership. if userId m = i \<and> teamId m = target
                            then m\<lparr>role := r, accepted := a\<rparr> else m)"
  have eq: "memberships (upsertMembership i target r a x) = map h (memberships x)"
    using True by (simp add: upsertMembership_def h_def)
  have h: "userId (h m) = userId m" "teamId (h m) = teamId m" for m
    by (simp_all add: h_def)
  have "teamId ` {m \<in> set (map h (memberships x)). userId m = i}
          = teamId ` {m \<in> set (memberships x). userId m = i}"
  proof (intro set_eqI iffI)
    fix k assume "k \<in> teamId ` {m \<in> set (map h (memberships x)). userId m = i}"
    then obtain m0 where "m0 \<in> set (memberships x)" "userId (h m0) = i" "k = teamId (h m0)"
      by auto
    then show "k \<in> teamId ` {m \<in> set (memberships x). userId m = i}"
      using h by (intro image_eqI [where x = m0]) simp_all
  next
    fix k assume "k \<in> teamId ` {m \<in> set (memberships x). userId m = i}"
    then obtain m0 where "m0 \<in> set (memberships x)" "userId m0 = i" "k = teamId m0"
      by auto
    then show "k \<in> teamId ` {m \<in> set (map h (memberships x)). userId m = i}"
      using h by (intro image_eqI [where x = "h m0"]) simp_all
  qed
  moreover have "target \<in> teamId ` {m \<in> set (memberships x). userId m = i}"
    using True by (auto simp: image_iff)
  ultimately show ?thesis
    unfolding eq by auto
next
  case False
  define nr where "nr = \<lparr>userId = i, teamId = target, role = r, accepted = a\<rparr>"
  have nr: "userId nr = i" "teamId nr = target"
    by (simp_all add: nr_def)
  from False have eq: "memberships (upsertMembership i target r a x) = memberships x @ [nr]"
    by (simp add: upsertMembership_def nr_def)
  have "{m \<in> set (memberships x @ [nr]). userId m = i}
          = insert nr {m \<in> set (memberships x). userId m = i}"
    using nr(1) by auto
  then show ?thesis
    unfolding eq by (simp add: nr(2))
qed

subsection \<open>The migrated store\<close>

lemma reparentRow_keep [simp]:
  "tid (reparentRow ids target t) = tid t"
  "tmetadata (reparentRow ids target t) = tmetadata t"
  "slug (reparentRow ids target t) = slug t"
  by (simp_all add: reparentRow_def)

lemma backfillRow_keep [simp]:
  "tid (backfillRow org target t) = tid t"
  "tmetadata (backfillRow org target t) = tmetadata t"
  "tid t \<noteq> target \<Longrightarrow> slug (backfillRow org target t) = slug t"
  by (simp_all add: backfillRow_def)

lemma migratedRow_keep [simp]:
  "uid (migratedRow i target tn md x) = uid x"
  "email (migratedRow i target tn md x) = email x"
  by (simp_all add: migratedRow_def)

lemma migrationWrites_users_rows:
  "users (migrationWrites e now u org target tn n r a s) =
     map (migratedRow (uid u) target tn (provenanceAt n now u)) (users s)"
  by (simp add: migrationWrites_users migratedRow_def provenanceAt_def)

lemma migratedStore_users:
  "users (migratedStore e now u org target tn n r a s) =
     map (migratedRow (uid u) target tn (provenanceAt n now u)) (users s)"
  by (simp add: migratedStore_def migrationWrites_users migratedRow_def provenanceAt_def)

lemma migratedStore_users_time:
  "map withoutMigrationTime (users (migratedStore e now u org target tn n r a s))
     = map withoutMigrationTime (users (migratedStore e now' u org target tn n r a s))"
  by (simp add: migratedStore_users migratedRow_def provenanceAt_def withoutMigrationTime_def)

lemma migratedStore_teams:
  "teams (migratedStore e now u org target tn n r a s) =
     map (backfillRow org target \<circ> reparentRow (tid ` set (teamsOfUser (uid u) s)) target)
       (teams s)"
  by (simp add: migratedStore_def setOrgSlugIfNotSet_teams migrationWrites_teams
        backfillRow_def reparentRow_def comp_def)

lemma migratedStore_memberships:
  "memberships (migratedStore e now u org target tn n r a s) =
     memberships (upsertMembership (uid u) target r a s)"
  by (simp add: migratedStore_def migrationWrites_memberships)

lemma migratedStore_redirects:
  "redirects (migratedStore e now u org target tn n r a s) =
     redirects (addRedirect e (Some n) org tn (teamsOfUser (uid u) s) s)"
  by (simp add: migratedStore_def migrationWrites_redirects)

lemma migratedStore_findUser:
  assumes "findUserById i s = Some u0" and "uid u = i"
  shows "findUserById i (migratedStore e now u org target tn n r a s)
           = Some (migratedRow i target tn (provenanceAt n now u) u0)"
proof -
  have "find (\<lambda>x. uid x = i) (map (migratedRow i target tn md) xs)
          = map_option (migratedRow i target tn md) (find (\<lambda>x. uid x = i) xs)" for md xs
    by (induction xs) simp_all
  then show ?thesis
    using assms by (simp add: findUserById_def migratedStore_users)
qed

lemma org_row_facts:
  assumes wf: "distinct (map tid (teams s))"
      and org: "findTeamById target s = Some org" "isOrg (tmetadata org)"
  shows "tid org = target"
    and "target \<notin> tid ` set (teamsOfUser i s)"
    and "\<And>t. t \<in> set (teams s) \<Longrightarrow> tid t = target \<Longrightarrow> t = org"
proof -
  show only_org: "t = org" if "t \<in> set (teams s)" "tid t = target" for t
    using wf org(1) that unfolding findTeamById_def by (rule only_row_of_id)
  show "tid org = target"
    using org(1) unfolding findTeamById_def by (auto dest: find_Some_set)
  show "target \<notin> tid ` set (teamsOfUser i s)"
  proof
    assume "target \<in> tid ` set (teamsOfUser i s)"
    then obtain t where t: "t \<in> set (teamsOfUser i s)" "tid t = target"
      by auto
    then have "t \<in> set (teams s)" "\<not> isOrg (tmetadata t)"
      by (simp_all add: teamsOfUser_filter)
    with only_org t(2) org(2) show False by blast
  qed
qed

lemma migratedStore_findTeam:
  assumes wf: "distinct (map tid (teams s))"
      and org: "findTeamById target s = Some org" "isOrg (tmetadata org)"
  shows "findTeamById target (migratedStore e now u org target tn n r a s)
           = Some (backfillRow org target org)"
proof -
  have "reparentRow (tid ` set (teamsOfUser (uid u) s)) target org = org"
    using org_row_facts(1,2) [OF wf org] by (simp add: reparentRow_def)
  then show ?thesis
    using org(1) by (simp add: findTeamById_def migratedStore_teams find_tid_map)
qed

lemma migratedStore_teamsOfUser:
  assumes wf: "distinct (map tid (teams s))"
      and org: "findTeamById target s = Some org" "isOrg (tmetadata org)"
  shows "teamsOfUser (uid u) (migratedStore e now u org target tn n r a s) =
           map (backfillRow org target \<circ> reparentRow (tid ` set (teamsOfUser (uid u) s)) target)
             (teamsOfUser (uid u) s)"
    and "map slug (teamsOfUser (uid u) (migratedStore e now u org target tn n r a s))
           = map slug (teamsOfUser (uid u) s)"
    and "tid ` set (teamsOfUser (uid u) (migratedStore e now u org target tn n r a s))
           = tid ` set (teamsOfUser (uid u) s)"
proof -
  let ?i = "uid u"
  let ?h = "backfillRow org target \<circ> reparentRow (tid ` set (teamsOfUser ?i s)) target"
  have "filter (\<lambda>t. tid t \<in> insert target (teamId ` {m \<in> set (memberships s). userId m = ?i})
                   \<and> \<not> isOrg (tmetadata t)) (teams s)
        = filter (\<lambda>t. tid t \<in> teamId ` {m \<in> set (memberships s). userId m = ?i}
                   \<and> \<not> isOrg (tmetadata t)) (teams s)"
    using org_row_facts(3) [OF wf org] org(2) by (intro filter_cong) auto
  then show eq: "teamsOfUser ?i (migratedStore e now u org target tn n r a s)
      = map ?h (teamsOfUser ?i s)"
    by (simp add: teamsOfUser_filter migratedStore_teams migratedStore_memberships
          member_teams_upsertMembership filter_map comp_def)
  have "slug (?h t) = slug t" if "t \<in> set (teamsOfUser ?i s)" for t
  proof -
    have "tid t \<noteq> target"
      using that org_row_facts(2) [OF wf org, of ?i] by auto
    then show ?thesis by simp
  qed
  then show "map slug (teamsOfUser ?i (migratedStore e now u org target tn n r a s))
      = map slug (teamsOfUser ?i s)"
    by (simp add: eq)
  show "tid ` set (teamsOfUser ?i (migratedStore e now u org target tn n r a s))
      = tid ` set (teamsOfUser ?i s)"
    by (simp add: eq image_image)
qed

subsection \<open>A second run on the migrated store\<close>

lemma migrateUserToOrg_second_run:
  assumes wf: "distinct (map tid (teams s))"
      and org: "findTeamById target s = Some org" "isOrg (tmetadata org)"
      and usr: "findUserById i s = Some u" and i0: "i \<noteq> 0" and nm: "\<not> truthyStr userName"
      and coll: "\<And>w. find (\<lambda>w. username w = Some tn \<and> organizationId w = Some target) (users s)
                       = Some w \<Longrightarrow> uid w = i"
      and n: "n \<noteq> []"
      and tn: "tn = resolveTargetOrgUsername e tnArg u org"
      and slugok: "truthyStr (slug org) \<or> truthyStr (requestedSlugOf org)"
      and acc: "acc = (case a of None \<Rightarrow> True | Some b \<Rightarrow> b)"
  shows "migrateUserToOrg e now2 (Some i) userName target tnArg r a
           (migratedStore e now1 u org target tn n r acc s)
         = (Inr (), migratedStore e now2 u org target tn n r acc s)"
proof -
  define S where "S = (\<lambda>now. migratedStore e now u org target tn n r acc s)"
  have uid: "uid u = i"
    using usr unfolding findUserById_def by (rule find_Some_uid)
  have u_in: "\<exists>x \<in> set (users s). uid x = i"
    using usr unfolding findUserById_def by (auto dest: find_Some_set)
  define ids where "ids = tid ` set (teamsOfUser i s)"
  define u' where "u' = migratedRow i target tn (provenanceAt n now1 u) u"
  define org' where "org' = backfillRow org target org"
  have tid_org: "tid org = target"
    by (rule org_row_facts(1) [OF wf org])

  have users_S: "users (S now) = map (migratedRow i target tn (provenanceAt n now u)) (users s)" for now
    by (simp add: S_def migratedStore_users uid)
  have teams_S: "teams (S now) = map (backfillRow org target \<circ> reparentRow ids target) (teams s)" for now
    by (simp add: S_def migratedStore_teams uid ids_def)
  have mem_S: "memberships (S now) = memberships (upsertMembership i target r acc s)" for now
    by (simp add: S_def migratedStore_memberships uid)
  have red_S: "redirects (S now) = redirects (addRedirect e (Some n) org tn (teamsOfUser i s) s)"
    for now
    by (simp add: S_def migratedStore_redirects uid)
  have org1: "findTeamById target (S now1) = Some org'"
    unfolding S_def org'_def by (rule migratedStore_findTeam [OF wf org])
  have usr1: "findUserById i (S now1) = Some u'"
    unfolding S_def u'_def by (rule migratedStore_findUser [OF usr uid])
  have u'_facts: "uid u' = i" "email u' = email u" "organizationId u' = Some target"
      "username u' = Some tn" "umetadata u' = Some (provenanceAt n now1 u)"
    by (simp_all add: u'_def migratedRow_def uid)
  have org'_facts: "tmetadata org' = tmetadata org" "truthyStr (slug org')"
      "orElse (slug org') (requestedSlugOf org') = orElse (slug org) (requestedSlugOf org)"
    using slugok
    by (auto simp: org'_def backfillRow_def tid_org orElse_def requestedSlugOf_def)
  have slugs2: "map slug (teamsOfUser i (S now1)) = map slug (teamsOfUser i s)"
    using migratedStore_teamsOfUser(2) [OF wf org, of u] by (simp add: S_def uid)
  have ids2: "tid ` set (teamsOfUser i (S now1)) = ids"
    using migratedStore_teamsOfUser(3) [OF wf org, of u] by (simp add: S_def uid ids_def)

  have coll': "\<not> (case find (\<lambda>w. username w = Some tn \<and> organizationId w = Some target)
                        (users (S now1)) of
                    None \<Rightarrow> False | Some w \<Rightarrow> Some (uid w) \<noteq> Some i)"
  proof -
    have "\<exists>w. find (\<lambda>w. username w = Some tn \<and> organizationId w = Some target)
                (map (migratedRow i target tn (provenanceAt n now1 u)) (users s)) = Some w
              \<and> uid w = i"
      by (rule find_holder_after_update [OF coll u_in]) (simp_all add: migratedRow_def)
    then show ?thesis
      by (auto simp: users_S)
  qed
  have tn': "resolveTargetOrgUsername e tnArg u' org' = tn"
    by (simp add: tn resolveTargetOrgUsername_def u'_facts org'_facts)
  have n': "orElse (migratedFromUsername u') (username u') = Some n"
    using n by (simp add: u'_facts migratedFromUsername_def metadataOrEmpty_def provenanceAt_def
          orElse_def)

  have run: "migrateUserToOrg e now2 (Some i) userName target tnArg r a (S now1) =
      setOrgSlugIfNotSet (slug org') (tmetadata org') target
        (migrationWrites e now2 u' org' target tn n r acc (S now1))"
    unfolding acc tn' [symmetric]
  proof (rule migrateUserToOrg_run)
    show "assertUserIdOrUserName (Some i) userName = Inr ()"
      using i0 nm by (simp add: assertUserIdOrUserName_def)
    show "findTeamById target (S now1) = Some org'" by (rule org1)
    show "isOrg (tmetadata org')" using org(2) by (simp add: org'_facts)
    show "getUniqueUserThatDoesntBelongToOrg userName (Some i) target (S now1) = Inr (Some u')"
      using nm usr1 by (simp add: getUniqueUserThatDoesntBelongToOrg_def)
    show "\<not> (truthyNum (organizationId u') \<and> organizationId u' \<noteq> Some target)"
      by (simp add: u'_facts)
    show "\<not> (case find (\<lambda>w. username w = Some (resolveTargetOrgUsername e tnArg u' org')
                      \<and> organizationId w = Some target) (users (S now1)) of
                None \<Rightarrow> False | Some w \<Rightarrow> Some (uid w) \<noteq> Some i)"
      unfolding tn' by (rule coll')
    show "orElse (migratedFromUsername u') (username u') = Some n" by (rule n')
    show "n \<noteq> []" by (rule n)
  qed

  define W2 where "W2 = migrationWrites e now2 u' org' target tn n r acc (S now1)"
  have md: "provenanceAt n now2 u' = provenanceAt n now2 u"
    by (simp add: provenanceAt_def u'_facts metadataOrEmpty_def)
  have "users W2 = map (migratedRow i target tn (provenanceAt n now2 u))
                     (map (migratedRow i target tn (provenanceAt n now1 u)) (users s))"
    by (simp add: W2_def migrationWrites_users_rows users_S u'_facts md)
  also have "\<dots> = map (migratedRow i target tn (provenanceAt n now2 u)) (users s)"
    by (simp add: migratedRow_def)
  finally have e1: "users W2 = users (S now2)"
    by (simp add: users_S)
  have "teams W2 = map (reparentRow ids target)
                     (map (backfillRow org target \<circ> reparentRow ids target) (teams s))"
    by (simp add: W2_def migrationWrites_teams u'_facts ids2 teams_S reparentRow_def)
  also have "\<dots> = map (backfillRow org target \<circ> reparentRow ids target) (teams s)"
  proof -
    have "reparentRow ids target (backfillRow org target (reparentRow ids target t))
            = backfillRow org target (reparentRow ids target t)" for t
      by (auto simp: reparentRow_def backfillRow_def)
    then show ?thesis by simp
  qed
  finally have e2: "teams W2 = teams (S now2)"
    by (simp add: teams_S)
  have "memberships W2 = memberships (upsertMembership i target r acc (S now1))"
    by (simp add: W2_def migrationWrites_memberships u'_facts)
  also have "\<dots> = memberships (upsertMembership i target r acc (upsertMembership i target r acc s))"
    by (rule upsertMembership_cong) (rule mem_S)
  finally have e3: "memberships W2 = memberships (S now2)"
    by (simp add: upsertMembership_idem mem_S)
  have "redirects W2 = redirects (addRedirect e (Some n) org' tn (teamsOfUser i (S now1)) (S now1))"
    by (simp add: W2_def migrationWrites_redirects u'_facts)
  also have "\<dots> = redirects (addRedirect e (Some n) org tn (teamsOfUser i s)
                       (addRedirect e (Some n) org tn (teamsOfUser i s) s))"
    by (rule addRedirect_cong [OF red_S slugs2 org'_facts(3)])
  finally have e4: "redirects W2 = redirects (S now2)"
    by (simp add: addRedirect_idem red_S)
  have same: "W2 = S now2"
    by (rule store.equality) (simp_all add: e1 e2 e3 e4)
  have "migrateUserToOrg e now2 (Some i) userName target tnArg r a (S now1) = (Inr (), W2)"
    using org'_facts(2) by (simp add: run W2_def setOrgSlugIfNotSet_cases)
  then show ?thesis
    unfolding same S_def .
qed

lemma migrateUserToOrg_success_store:
  assumes "migrateUserToOrg e now userId' userName target tnArg r a s = (Inr (), s')"
  shows "\<exists>org u n.
      assertUserIdOrUserName userId' userName = Inr ()
    \<and> findTeamById target s = Some org \<and> isOrg (tmetadata org)
    \<and> getUniqueUserThatDoesntBelongToOrg userName userId' target s = Inr (Some u)
    \<and> (\<forall>w. find (\<lambda>w. username w = Some (resolveTargetOrgUsername e tnArg u org)
                      \<and> organizationId w = Some target) (users s) = Some w
             \<longrightarrow> Some (uid w) = userId')
    \<and> orElse (migratedFromUsername u) (username u) = Some n \<and> n \<noteq> []
    \<and> (truthyStr (slug org) \<or> truthyStr (requestedSlugOf org))
    \<and> (\<forall>now'. snd (migrateUserToOrg e now' userId' userName target tnArg r a s)
          = migratedStore e now' u org target (resolveTargetOrgUsername e tnArg u org) n r
              (case a of None \<Rightarrow> True | Some b \<Rightarrow> b) s)"
proof -
  from migrateUserToOrg_success [OF assms] obtain org u n where
        a: "assertUserIdOrUserName userId' userName = Inr ()"
    and o: "findTeamById target s = Some org" "isOrg (tmetadata org)"
    and c: "getUniqueUserThatDoesntBelongToOrg userName userId' target s = Inr (Some u)"
    and d: "\<not> (truthyNum (organizationId u) \<and> organizationId u \<noteq> Some target)"
    and f: "\<not> (case find (\<lambda>w. username w = Some (resolveTargetOrgUsername e tnArg u org)
                      \<and> organizationId w = Some target) (users s) of
                None \<Rightarrow> False | Some w \<Rightarrow> Some (uid w) \<noteq> userId')"
    and n: "orElse (migratedFromUsername u) (username u) = Some n" "n \<noteq> []"
    by blast
  note run = migrateUserToOrg_run [OF a o c d f n]
  have ok: "truthyStr (slug org) \<or> truthyStr (requestedSlugOf org)"
    using assms unfolding run [of now r a]
    by (metis fst_conv setOrgSlugIfNotSet_ok)
  have f': "\<forall>w. find (\<lambda>w. username w = Some (resolveTargetOrgUsername e tnArg u org)
                      \<and> organizationId w = Some target) (users s) = Some w
             \<longrightarrow> Some (uid w) = userId'"
    using f by (auto split: option.splits)
  show ?thesis
    using a o c f' n ok by (intro exI [of _ org] exI [of _ u] exI [of _ n]) (simp add: run migratedStore_def)
qed

lemma truthyNum_Some: "truthyNum x \<Longrightarrow> \<exists>i. x = Some i \<and> i \<noteq> 0"
  by (cases x) simp_all

subsection \<open>Removing redirects\<close>


lemma find_exists: "x \<in> set xs \<Longrightarrow> P x \<Longrightarrow> \<exists>y. find P xs = Some y"
  by (cases "find P xs") (auto simp: find_None_iff)



subsection \<open>What a successful migration and a successful reversal leave\<close>






subsection \<open>The redirect rows a run writes and the rows it leaves\<close>





section \<open>The claims\<close>

subsection \<open>C1: the organization check and the first write\<close>

text \<open>
  \<open>migrateUserToOrg\<close> verifies the organization tag of the target before it writes:
  on a target that is an existing plain team it fails and returns the store it was given.
\<close>

lemma migrateUserToOrg_not_an_org:
  assumes "findTeamById targetOrgId s = Some t" and "\<not> isOrg (tmetadata t)"
  shows "\<exists>err. migrateUserToOrg e now userId' userName targetOrgId targetOrgUsername role' acc s
           = (Inl err, s)"
  using assms
  by (cases "assertUserIdOrUserName userId' userName")
     (simp_all add: migrateUserToOrg_def getTeamOrThrowError_def)

text \<open>
  Claim C1: for every entry point (\<open>migrateUserToOrg\<close>, \<open>moveTeamToOrg\<close>) no store
  mutation is issued before the target has been verified to carry the organization tag;
  a target that is an existing plain team makes the operation fail with every record
  unchanged. \<open>moveTeamToOrg\<close> breaks this: it calls \<open>updateTeam\<close> before it reads the
  tag. Moving \<open>draft\<close> (id 12) under the plain team \<open>sales\<close> (id 2) fails with
  "2 is not an Org", and \<open>draft\<close> has been given parent 2.
\<close>

theorem moveTeamToOrg_reparents_before_org_check:
  "moveTeamToOrg exEnv ''t1'' 2 12 None store0 =
     (Inl (Error (NotAnOrg 2)), store0\<lparr>teams := [acme, sales, draft\<lparr>parentId := Some 2\<rparr>]\<rparr>)"
  by code_simp

subsection \<open>C2: running the migration twice\<close>

text \<open>
  Claim C2, as amended: for every store whose team ids are distinct and every argument
  tuple that designates the user by \<open>userId\<close> on which \<open>migrateUserToOrg\<close> succeeds,
  a second call with the same arguments succeeds too, and the store it leaves is the
  one a single call at the time of the second leaves: the team, membership and redirect
  tables are those after the first call, and the users differ from them at most in
  \<open>lastMigrationTime\<close>, so that two calls at the same clock value leave exactly the
  store of one. Designation by \<open>userName\<close> is left out.
\<close>

theorem migrateUserToOrg_idempotent_by_userId:
  assumes wf: "distinct (map tid (teams s))"
      and byId: "truthyNum userId'"
      and first: "migrateUserToOrg e now1 userId' userName target tnArg r a s = (Inr (), s1)"
  shows "migrateUserToOrg e now2 userId' userName target tnArg r a s1
           = (Inr (), snd (migrateUserToOrg e now2 userId' userName target tnArg r a s))
       \<and> teams (snd (migrateUserToOrg e now2 userId' userName target tnArg r a s)) = teams s1
       \<and> memberships (snd (migrateUserToOrg e now2 userId' userName target tnArg r a s))
           = memberships s1
       \<and> redirects (snd (migrateUserToOrg e now2 userId' userName target tnArg r a s))
           = redirects s1
       \<and> map withoutMigrationTime
             (users (snd (migrateUserToOrg e now2 userId' userName target tnArg r a s)))
           = map withoutMigrationTime (users s1)
       \<and> (now2 = now1 \<longrightarrow>
            migrateUserToOrg e now2 userId' userName target tnArg r a s1 = (Inr (), s1))"
proof -
  from truthyNum_Some [OF byId] obtain i where i: "userId' = Some i" "i \<noteq> 0"
    by blast
  from migrateUserToOrg_success_store [OF first] obtain org u n where
        a: "assertUserIdOrUserName userId' userName = Inr ()"
    and o: "findTeamById target s = Some org" "isOrg (tmetadata org)"
    and c: "getUniqueUserThatDoesntBelongToOrg userName userId' target s = Inr (Some u)"
    and f: "\<And>w. find (\<lambda>w. username w = Some (resolveTargetOrgUsername e tnArg u org)
                      \<and> organizationId w = Some target) (users s) = Some w
             \<Longrightarrow> Some (uid w) = userId'"
    and n: "n \<noteq> []"
    and ok: "truthyStr (slug org) \<or> truthyStr (requestedSlugOf org)"
    and st: "\<And>now'. snd (migrateUserToOrg e now' userId' userName target tnArg r a s)
          = migratedStore e now' u org target (resolveTargetOrgUsername e tnArg u org) n r
              (case a of None \<Rightarrow> True | Some b \<Rightarrow> b) s"
    by blast
  have nm: "\<not> truthyStr userName"
    using a i by (auto simp: assertUserIdOrUserName_def split: if_splits)
  have usr: "findUserById i s = Some u"
    using c nm i by (simp add: getUniqueUserThatDoesntBelongToOrg_def)
  have s1: "s1 = migratedStore e now1 u org target (resolveTargetOrgUsername e tnArg u org) n r
              (case a of None \<Rightarrow> True | Some b \<Rightarrow> b) s"
    using st [of now1] first by simp
  have f': "uid w = i"
    if "find (\<lambda>w. username w = Some (resolveTargetOrgUsername e tnArg u org)
                      \<and> organizationId w = Some target) (users s) = Some w" for w
    using f [OF that] i by simp
  have second: "migrateUserToOrg e now2 userId' userName target tnArg r a s1
           = (Inr (), snd (migrateUserToOrg e now2 userId' userName target tnArg r a s))" for now2
    using migrateUserToOrg_second_run [where e = e and tnArg = tnArg
        and tn = "resolveTargetOrgUsername e tnArg u org" and ?now2.0 = now2
        and ?now1.0 = now1 and r = r and a = a, OF wf o usr i(2) nm f' n refl ok refl]
    by (simp add: st s1 [symmetric] i(1) [symmetric])
  show ?thesis
    using second [of now2] second [of now1] first
      migratedStore_users_time [of e now2 u org target _ n r _ s now1]
    by (simp add: st s1 migratedStore_teams migratedStore_memberships migratedStore_redirects)
qed

theorem migrateUserToOrg_idempotent_by_userId_witness:
  "distinct (map tid (teams store0)) \<and> truthyNum (Some 7)
   \<and> migrateUserToOrg exEnv ''t1'' (Some 7) None 3 (Some ''bob'') MEMBER None store0
        = (Inr (), store1)
   \<and> migrateUserToOrg exEnv ''t1'' (Some 7) None 3 (Some ''bob'') MEMBER None store1
        = (Inr (), store1)
   \<and> migrateUserToOrg exEnv ''t2'' (Some 7) None 3 (Some ''bob'') MEMBER None store1
        = (Inr (), snd (migrateUserToOrg exEnv ''t2'' (Some 7) None 3 (Some ''bob'') MEMBER None
                          store0))"
proof -
  have h1: "distinct (map tid (teams store0))" by code_simp
  have h2: "truthyNum (Some 7)" by simp
  have h3: "migrateUserToOrg exEnv ''t1'' (Some 7) None 3 (Some ''bob'') MEMBER None store0
        = (Inr (), store1)" by code_simp
  show ?thesis
    using migrateUserToOrg_idempotent_by_userId [OF h1 h2 h3, of "''t2''"]
      migrateUserToOrg_idempotent_by_userId [OF h1 h2 h3, of "''t1''"] h1 h3
    by simp
qed

text \<open>
  The claim as stated fails for designation by \<open>userName\<close>: the first call gives bob
  the organization username "bob-acme", so the second call finds no standalone or
  \<open>acme\<close> user named "bob" and fails with "User bob is part of an org already".
\<close>

theorem migrateUserToOrg_by_userName_second_call_fails:
  "fst (migrateUserToOrg exEnv ''t1'' None (Some ''bob'') 3 (Some ''bob-acme'') MEMBER None store0)
     = Inr ()
   \<and> fst (migrateUserToOrg exEnv ''t1'' None (Some ''bob'') 3 (Some ''bob-acme'') MEMBER None
            (snd (migrateUserToOrg exEnv ''t1'' None (Some ''bob'') 3 (Some ''bob-acme'') MEMBER
                    None store0)))
       = Inl (HttpError 400 (UserIsPartOfAnOrgAlready (Some ''bob'') None))"
  by code_simp

subsection \<open>C3: migrating and reverting\<close>




subsection \<open>C4: the collision check\<close>

text \<open>
  Claim C4: \<open>migrateUserToOrg\<close> fails on the collision check exactly when a user other
  than the candidate holds the target username in the target organization; when the
  candidate itself is the only holder the check passes, however the candidate was
  designated. The check compares the holder's id with the \<open>userId\<close> argument, which is
  undefined when the candidate is designated by \<open>userName\<close>. In \<open>store1\<close> bob is the
  only user at all and holds "bob" in \<open>acme\<close>; designated by name, he is the candidate
  and the call is rejected with "Username bob already exists for orgId: 3 for some other
  user".
\<close>

theorem migrateUserToOrg_by_userName_rejects_the_candidate:
  "migrateUserToOrg exEnv ''t2'' None (Some ''bob'') 3 (Some ''bob'') MEMBER None store1
     = (Inl (HttpError 400 (UsernameAlreadyExists ''bob'' 3)), store1)
   \<and> getUniqueUserThatDoesntBelongToOrg (Some ''bob'') None 3 store1 = Inr (Some bobInAcme)
   \<and> filter (\<lambda>u. username u = Some ''bob'' \<and> organizationId u = Some 3) (users store1)
       = [bobInAcme]"
  by code_simp

text \<open>Designated by id, the same user passes the check and the call succeeds.\<close>

lemma migrateUserToOrg_by_userId_accepts_the_candidate:
  "fst (migrateUserToOrg exEnv ''t2'' (Some 7) None 3 (Some ''bob'') MEMBER None store1) = Inr ()"
  by code_simp

text \<open>
  In general: once the earlier checks have passed, the call fails with "Username ...
  already exists" exactly when the first user found with the target username in the
  target organization has an id other than the \<open>userId\<close> argument.
\<close>

lemma migrateUserToOrg_collision_check:
  assumes "assertUserIdOrUserName userId' userName = Inr ()"
      and "findTeamById target s = Some org" and "isOrg (tmetadata org)"
      and "getUniqueUserThatDoesntBelongToOrg userName userId' target s = Inr (Some u)"
      and "\<not> (truthyNum (organizationId u) \<and> organizationId u \<noteq> Some target)"
  shows "migrateUserToOrg e now userId' userName target tnArg r a s
           = (Inl (HttpError 400
                (UsernameAlreadyExists (resolveTargetOrgUsername e tnArg u org) target)), s)
         \<longleftrightarrow> (\<exists>w. find (\<lambda>w. username w = Some (resolveTargetOrgUsername e tnArg u org)
                             \<and> organizationId w = Some target) (users s) = Some w
                  \<and> Some (uid w) \<noteq> userId')"
proof (cases "case find (\<lambda>w. username w = Some (resolveTargetOrgUsername e tnArg u org)
                      \<and> organizationId w = Some target) (users s) of
                None \<Rightarrow> False | Some w \<Rightarrow> Some (uid w) \<noteq> userId'")
  case True
  then show ?thesis
    using assms
    by (auto simp: migrateUserToOrg_def getTeamOrThrowError_def assertUserPartOfOtherOrg_def
          Let_def split: option.splits)
next
  case False
  have "fst (migrateUserToOrg e now userId' userName target tnArg r a s)
          \<noteq> Inl (HttpError 400
                (UsernameAlreadyExists (resolveTargetOrgUsername e tnArg u org) target))"
  proof (cases "truthyStr (orElse (migratedFromUsername u) (username u))")
    case True
    then obtain n where n: "orElse (migratedFromUsername u) (username u) = Some n" "n \<noteq> []"
      by (cases "orElse (migratedFromUsername u) (username u)") auto
    show ?thesis
      unfolding migrateUserToOrg_run [OF assms False n]
      by (simp add: setOrgSlugIfNotSet_cases)
  next
    case noName: False
    then show ?thesis
      using assms False
      by (cases "orElse (migratedFromUsername u) (username u)")
         (simp_all add: migrateUserToOrg_def getTeamOrThrowError_def assertUserPartOfOtherOrg_def
            assertUserPartOfOrgAndRemigrationAllowed_def Let_def)
  qed
  then show ?thesis
    using False by (auto split: option.splits)
qed

text \<open>
  So with designation by \<open>userName\<close>, where the argument is undefined, every holder of
  the target username in the target organization makes the call fail, the candidate too.
\<close>

lemma migrateUserToOrg_by_userName_any_holder:
  assumes "userName \<noteq> []"
      and "findTeamById target s = Some org" and "isOrg (tmetadata org)"
      and "getUniqueUserThatDoesntBelongToOrg (Some userName) None target s = Inr (Some u)"
      and "w \<in> set (users s)"
      and "username w = Some (resolveTargetOrgUsername e tnArg u org)"
      and "organizationId w = Some target"
  shows "migrateUserToOrg e now None (Some userName) target tnArg r a s
           = (Inl (HttpError 400
                (UsernameAlreadyExists (resolveTargetOrgUsername e tnArg u org) target)), s)"
proof -
  have a: "assertUserIdOrUserName None (Some userName) = Inr ()"
    using assms(1) by (simp add: assertUserIdOrUserName_def)
  let ?found = "filter (\<lambda>u. organizationId u = Some target \<or> organizationId u = None)
                  (filter (\<lambda>u. username u = Some userName) (users s))"
  from assms(1,4) have "(case ?found of [] \<Rightarrow> None | u # _ \<Rightarrow> Some u) = Some u"
    by (simp add: getUniqueUserThatDoesntBelongToOrg_def Let_def split: if_splits)
  then have "u \<in> set ?found"
    by (cases ?found) simp_all
  then have d: "\<not> (truthyNum (organizationId u) \<and> organizationId u \<noteq> Some target)"
    by auto
  from find_exists [of w "users s" "\<lambda>w. username w = Some (resolveTargetOrgUsername e tnArg u org)
        \<and> organizationId w = Some target"] assms(5-7)
  obtain w' where "find (\<lambda>w. username w = Some (resolveTargetOrgUsername e tnArg u org)
        \<and> organizationId w = Some target) (users s) = Some w'"
    by auto
  then show ?thesis
    unfolding migrateUserToOrg_collision_check [OF a assms(2,3,4) d] by simp
qed

subsection \<open>C5: a user who is already in an organization\<close>

text \<open>
  Claim C5, as amended: let the target be an existing organization. For a user
  designated by \<open>userId\<close> who is already in the target organization both membership
  guards pass, and \<open>migrateUserToOrg\<close> succeeds provided no other user holds the
  target username in the organization, the user has a standalone username (recorded or
  current), the organization has a slug or a requested slug, and no write meets a slug
  clash: no team of the user has a slug that another team holds under the target
  organization once they are moved there, and when the organization's slug is
  back-filled no other team holds the requested slug under the organization's parent.
  For a user designated by
  \<open>userId\<close> whose organization is another one, and for a \<open>userName\<close> whose holders
  are all in other organizations, \<open>migrateUserToOrg\<close> fails with an \<open>HttpError\<close> of
  status 400 and returns the store unchanged.
\<close>

theorem migrateUserToOrg_membership_boundary:
  assumes org: "findTeamById target s = Some org" "isOrg (tmetadata org)"
      and usr: "findUserById i s = Some u" and i0: "i \<noteq> 0" and nm: "\<not> truthyStr userName"
  shows "(organizationId u = Some target \<longrightarrow>
            assertUserPartOfOtherOrg (Some u) userName (Some i) target = Inr u
          \<and> assertUserPartOfOrgAndRemigrationAllowed u target
               (resolveTargetOrgUsername e tnArg u org) (Some i) = Inr ()
          \<and> (\<not> usernameTaken i (resolveTargetOrgUsername e tnArg u org) (Some target) (users s)
              \<and> truthyStr (orElse (migratedFromUsername u) (username u))
              \<and> (truthyStr (slug org) \<or> truthyStr (requestedSlugOf org))
              \<and> \<not> slugClashAfter (tid ` set (teamsOfUser i s)) (Some target) (teams s)
              \<and> \<not> backfillClash org target (tid ` set (teamsOfUser i s)) (teams s)
             \<longrightarrow> fst (migrateUserToOrg e now (Some i) userName target tnArg r a s) = Inr ()))
       \<and> (truthyNum (organizationId u) \<and> organizationId u \<noteq> Some target \<longrightarrow>
            migrateUserToOrg e now (Some i) userName target tnArg r a s
              = (Inl (HttpError 400 UserAlreadyPartOfAnOrganization), s))
       \<and> (\<forall>name. name \<noteq> []
              \<and> (\<forall>w \<in> set (users s). username w = Some name \<longrightarrow>
                    organizationId w \<noteq> None \<and> organizationId w \<noteq> Some target)
            \<longrightarrow> migrateUserToOrg e now None (Some name) target tnArg r a s
                  = (Inl (HttpError 400 (UserIsPartOfAnOrgAlready (Some name) None)), s))"
proof -
  have a: "assertUserIdOrUserName (Some i) userName = Inr ()"
    using i0 nm by (simp add: assertUserIdOrUserName_def)
  have c: "getUniqueUserThatDoesntBelongToOrg userName (Some i) target s = Inr (Some u)"
    using nm usr by (simp add: getUniqueUserThatDoesntBelongToOrg_def)
  have guards: "assertUserPartOfOtherOrg (Some u) userName (Some i) target = Inr u
      \<and> assertUserPartOfOrgAndRemigrationAllowed u target
           (resolveTargetOrgUsername e tnArg u org) (Some i) = Inr ()"
    if "organizationId u = Some target"
    using that
    by (simp add: assertUserPartOfOtherOrg_def assertUserPartOfOrgAndRemigrationAllowed_def)
  have ok: "fst (migrateUserToOrg e now (Some i) userName target tnArg r a s) = Inr ()"
    if inOrg: "organizationId u = Some target"
      and free: "\<not> usernameTaken i (resolveTargetOrgUsername e tnArg u org) (Some target)
                    (users s)"
      and name: "truthyStr (orElse (migratedFromUsername u) (username u))"
      and slugok: "truthyStr (slug org) \<or> truthyStr (requestedSlugOf org)"
  proof -
    from name obtain n where n: "orElse (migratedFromUsername u) (username u) = Some n" "n \<noteq> []"
      by (cases "orElse (migratedFromUsername u) (username u)") auto
    have d: "\<not> (truthyNum (organizationId u) \<and> organizationId u \<noteq> Some target)"
      using inOrg by simp
    have f: "\<not> (case find (\<lambda>w. username w = Some (resolveTargetOrgUsername e tnArg u org)
                      \<and> organizationId w = Some target) (users s) of
                None \<Rightarrow> False | Some w \<Rightarrow> Some (uid w) \<noteq> Some i)"
      using free by (auto simp: usernameTaken_def split: option.splits dest!: find_Some_set)
    show ?thesis
      unfolding migrateUserToOrg_run [OF a org c d f n]
      using slugok by (simp add: setOrgSlugIfNotSet_ok)
  qed
  have other: "migrateUserToOrg e now (Some i) userName target tnArg r a s
      = (Inl (HttpError 400 UserAlreadyPartOfAnOrganization), s)"
    if "truthyNum (organizationId u)" "organizationId u \<noteq> Some target"
    using that a c org
    by (simp add: migrateUserToOrg_def getTeamOrThrowError_def assertUserPartOfOtherOrg_def)
  have byName: "migrateUserToOrg e now None (Some name) target tnArg r a s
      = (Inl (HttpError 400 (UserIsPartOfAnOrgAlready (Some name) None)), s)"
    if "name \<noteq> []"
      and "\<forall>w \<in> set (users s). username w = Some name \<longrightarrow>
             organizationId w \<noteq> None \<and> organizationId w \<noteq> Some target" for name
  proof -
    have "filter (\<lambda>u. organizationId u = Some target \<or> organizationId u = None)
            (filter (\<lambda>u. username u = Some name) (users s)) = []"
      using that(2) by (auto simp: filter_empty_conv)
    then show ?thesis
      using that(1) org
      by (simp add: migrateUserToOrg_def assertUserIdOrUserName_def getTeamOrThrowError_def
            getUniqueUserThatDoesntBelongToOrg_def assertUserPartOfOtherOrg_def Let_def)
  qed
  show ?thesis
    using guards ok other byName by blast
qed

theorem migrateUserToOrg_membership_boundary_witness:
  "findTeamById 3 store1 = Some (acme\<lparr>slug := Some ''acme''\<rparr>)
   \<and> findUserById 7 store1 = Some bobInAcme \<and> organizationId bobInAcme = Some 3
   \<and> fst (migrateUserToOrg exEnv ''t2'' (Some 7) None 3 (Some ''bob'') MEMBER None store1) = Inr ()
   \<and> findTeamById 3 storeMembers = Some acme
   \<and> findUserById 10 storeMembers = Some erin \<and> organizationId erin = Some 5
   \<and> migrateUserToOrg exEnv ''t2'' (Some 10) None 3 None MEMBER None storeMembers
        = (Inl (HttpError 400 UserAlreadyPartOfAnOrganization), storeMembers)
   \<and> migrateUserToOrg exEnv ''t2'' None (Some ''erin'') 3 None MEMBER None storeMembers
        = (Inl (HttpError 400 (UserIsPartOfAnOrgAlready (Some ''erin'') None)), storeMembers)"
proof -
  let ?acme = "acme\<lparr>slug := Some ''acme''\<rparr>"
  have o1: "findTeamById 3 store1 = Some ?acme" by code_simp
  have o2: "isOrg (tmetadata ?acme)" by code_simp
  have u1: "findUserById 7 store1 = Some bobInAcme" by code_simp
  have g1: "organizationId bobInAcme = Some 3" by code_simp
  have f1: "\<not> usernameTaken 7 (resolveTargetOrgUsername exEnv (Some ''bob'') bobInAcme ?acme)
      (Some 3) (users store1)"
    by code_simp
  have k1: "\<not> slugClashAfter (tid ` set (teamsOfUser 7 store1)) (Some 3) (teams store1)"
    by code_simp
  have k2: "\<not> backfillClash ?acme 3 (tid ` set (teamsOfUser 7 store1)) (teams store1)"
    by code_simp
  have n1: "truthyStr (orElse (migratedFromUsername bobInAcme) (username bobInAcme))"
    by code_simp
  have s1: "truthyStr (slug ?acme) \<or> truthyStr (requestedSlugOf ?acme)" by code_simp
  have o3: "findTeamById 3 storeMembers = Some acme" by code_simp
  have o4: "isOrg (tmetadata acme)" by code_simp
  have u2: "findUserById 10 storeMembers = Some erin" by code_simp
  have g2: "organizationId erin = Some 5" by code_simp
  have g3: "truthyNum (organizationId erin) \<and> organizationId erin \<noteq> Some 3" by code_simp
  have f2: "\<forall>w \<in> set (users storeMembers). username w = Some ''erin'' \<longrightarrow>
      organizationId w \<noteq> None \<and> organizationId w \<noteq> Some 3"
    by code_simp
  have z: "(7::int) \<noteq> 0" "(10::int) \<noteq> 0" "\<not> truthyStr None" "''erin'' \<noteq> []" by simp_all
  note first = migrateUserToOrg_membership_boundary [OF o1 o2 u1 z(1) z(3),
      where e = exEnv and tnArg = "Some ''bob''" and now = "''t2''" and r = MEMBER and a = None]
  note second = migrateUserToOrg_membership_boundary [OF o3 o4 u2 z(2) z(3),
      where e = exEnv and tnArg = None and now = "''t2''" and r = MEMBER and a = None]
  have a: "fst (migrateUserToOrg exEnv ''t2'' (Some 7) None 3 (Some ''bob'') MEMBER None store1)
      = Inr ()"
    using first g1 f1 n1 s1 k1 k2 by blast
  have b: "migrateUserToOrg exEnv ''t2'' (Some 10) None 3 None MEMBER None storeMembers
        = (Inl (HttpError 400 UserAlreadyPartOfAnOrganization), storeMembers)"
    using second g3 by blast
  have c: "migrateUserToOrg exEnv ''t2'' None (Some ''erin'') 3 None MEMBER None storeMembers
        = (Inl (HttpError 400 (UserIsPartOfAnOrgAlready (Some ''erin'') None)), storeMembers)"
    using second z(4) f2 by blast
  show ?thesis
    using o1 u1 g1 a o3 u2 g2 b c by blast
qed

text \<open>
  The claim as stated fails in its first part: carol is in \<open>acme\<close> already, and her
  migration into \<open>acme\<close> under the username "dave", which dave holds there, is
  rejected.
\<close>

theorem migrateUserToOrg_refresh_can_fail:
  "findUserById 8 storeMembers = Some carol \<and> organizationId carol = Some 3
   \<and> findTeamById 3 storeMembers = Some acme \<and> isOrg (tmetadata acme)
   \<and> migrateUserToOrg exEnv ''t2'' (Some 8) None 3 (Some ''dave'') MEMBER None storeMembers
        = (Inl (HttpError 400 (UsernameAlreadyExists ''dave'' 3)), storeMembers)"
  by code_simp

subsection \<open>C6: a team without slug\<close>




subsection \<open>C7: removing a team that is not in the organization\<close>

text \<open>
  Claim C7, as amended: for every team whose parent is not the target organization,
  \<open>removeTeamFromOrg\<close> leaves the user, team and membership records unchanged; when the
  team has a slug it succeeds and still deletes the redirects of that slug from the
  standalone namespace, and when the team has none it fails with an \<open>HttpError\<close> of
  status 400 and the store unchanged.
\<close>

theorem removeTeamFromOrg_other_parent:
  assumes "findTeamById teamId' s = Some t" and "parentId t \<noteq> Some targetOrgId"
  shows "removeTeamFromOrg targetOrgId teamId' s =
           (case slug t of
              None \<Rightarrow> (Inl (HttpError 400 NoSlugForTeam), s)
            | Some sl \<Rightarrow> if sl = [] then (Inl (HttpError 400 NoSlugForTeam), s)
                         else (Inr (), s\<lparr>redirects := filter (\<lambda>r. \<not> redirectKey Team sl r) (redirects s)\<rparr>))
         \<and> users (snd (removeTeamFromOrg targetOrgId teamId' s)) = users s
         \<and> teams (snd (removeTeamFromOrg targetOrgId teamId' s)) = teams s
         \<and> memberships (snd (removeTeamFromOrg targetOrgId teamId' s)) = memberships s"
  using assms
  by (simp add: removeTeamFromOrg_def updateTeam_remove_def removeRedirect_team_def
        deleteManyRedirects_def split: option.splits)

theorem removeTeamFromOrg_other_parent_witness:
  "findTeamById 2 storeRedirect = Some sales \<and> parentId sales \<noteq> Some 3
   \<and> removeTeamFromOrg 3 2 storeRedirect = (Inr (), store0)"
proof -
  have h1: "findTeamById 2 storeRedirect = Some sales" by code_simp
  have h2: "parentId sales \<noteq> Some 3" by (simp add: sales_def)
  have h3: "slug sales = Some ''sales''" by (simp add: sales_def)
  have h4: "storeRedirect\<lparr>redirects :=
              filter (\<lambda>r. \<not> redirectKey Team ''sales'' r) (redirects storeRedirect)\<rparr> = store0"
    by (simp add: storeRedirect_def store0_def redirectKey_def)
  show ?thesis
    using removeTeamFromOrg_other_parent [OF h1 h2] h1 h2 h3 h4 by simp
qed

text \<open>
  The claim as stated fails: \<open>sales\<close> has no parent, so it is not in organization 3, and
  removing it from organization 3 deletes its redirect.
\<close>

theorem removeTeamFromOrg_other_parent_deletes_redirect:
  "parentId sales = None
   \<and> redirects storeRedirect =
        [\<lparr>rtype = Team, rfrom = ''sales'', fromOrgId = 0,
           toUrl = ''https://acme.cal.com/team/sales''\<rparr>]
   \<and> fst (removeTeamFromOrg 3 2 storeRedirect) = Inr ()
   \<and> redirects (snd (removeTeamFromOrg 3 2 storeRedirect)) = []"
  by code_simp

subsection \<open>C8: an ambiguous user name\<close>

text \<open>
  Claim C8, as amended: when \<open>migrateUserToOrg\<close> is given a user name and no user id,
  the target is an existing organization, and more than one user of that name is
  standalone or in the target organization, the call fails with a plain \<open>Error\<close> ("More
  than one user found"), which carries no status code and which the request handlers
  answer with status 500; the store is unchanged.
\<close>

theorem migrateUserToOrg_ambiguous_userName:
  assumes "truthyStr (Some userName)" and "\<not> truthyNum userId'"
      and "findTeamById targetOrgId s = Some t" and "isOrg (tmetadata t)"
      and "length (filter (\<lambda>u. username u = Some userName
                 \<and> (organizationId u = Some targetOrgId \<or> organizationId u = None)) (users s)) > 1"
  shows "migrateUserToOrg e now userId' (Some userName) targetOrgId targetOrgUsername role' acc s
           = (Inl (Error (MoreThanOneUserFound userName)), s)
         \<and> responseStatus (Error (MoreThanOneUserFound userName)) = 500"
  using assms
  by (simp add: migrateUserToOrg_def assertUserIdOrUserName_def getTeamOrThrowError_def
        getUniqueUserThatDoesntBelongToOrg_def Let_def)

theorem migrateUserToOrg_ambiguous_userName_witness:
  "truthyStr (Some ''bob'') \<and> \<not> truthyNum None
   \<and> findTeamById 3 storeDup = Some acme \<and> isOrg (tmetadata acme)
   \<and> length (filter (\<lambda>u. username u = Some ''bob''
          \<and> (organizationId u = Some 3 \<or> organizationId u = None)) (users storeDup)) = 2
   \<and> migrateUserToOrg exEnv ''t1'' None (Some ''bob'') 3 (Some ''bob-acme'') MEMBER None storeDup
        = (Inl (Error (MoreThanOneUserFound ''bob'')), storeDup)"
proof -
  have h1: "truthyStr (Some ''bob'')" by simp
  have h2: "\<not> truthyNum None" by simp
  have h3: "findTeamById 3 storeDup = Some acme" by code_simp
  have h4: "isOrg (tmetadata acme)" by code_simp
  have h5: "length (filter (\<lambda>u. username u = Some ''bob''
          \<and> (organizationId u = Some 3 \<or> organizationId u = None)) (users storeDup)) = 2"
    by code_simp
  have h6: "length (filter (\<lambda>u. username u = Some ''bob''
          \<and> (organizationId u = Some 3 \<or> organizationId u = None)) (users storeDup)) > 1"
    by (simp add: h5)
  show ?thesis
    using migrateUserToOrg_ambiguous_userName [OF h1 h2 h3 h4 h6, where e = exEnv
        and now = "''t1''" and targetOrgUsername = "Some ''bob-acme''" and role' = MEMBER
        and acc = None] h3 h4 h5
    by simp
qed

text \<open>
  The claim as stated fails: with two standalone users named "bob" the error is a plain
  \<open>Error\<close>, not an \<open>HttpError\<close>, and the handler's answer to it is 500.
\<close>

theorem migrateUserToOrg_ambiguous_userName_is_untyped:
  "fst (migrateUserToOrg exEnv ''t1'' None (Some ''bob'') 3 None MEMBER None storeDup)
     = Inl (Error (MoreThanOneUserFound ''bob''))
   \<and> responseStatus (Error (MoreThanOneUserFound ''bob'')) = 500"
  by code_simp

subsection \<open>C9: reverting a user who was never migrated or is already reverted\<close>

text \<open>
  Claim C9: \<open>removeFromOrg\<close> fails with an error of status 400 for every user whose
  metadata has no provenance record and for every user whose provenance record is marked
  reverted, and in both cases it mutates nothing. The code has one error type for the
  classes the claim names, status 400 each; for a user in the target organization the
  messages are "wasn't migrated" and "is already reverted", and for a user elsewhere the
  earlier check answers "is not part of orgId".
\<close>

theorem removeFromOrg_never_migrated_or_reverted:
  assumes "findUserById userId' s = Some u"
  shows "(migratedTo (metadataOrEmpty (umetadata u)) = None \<longrightarrow>
            (\<exists>m. removeFromOrg now targetOrgId userId' s = (Inl (HttpError 400 m), s))
            \<and> (organizationId u = Some targetOrgId \<longrightarrow>
                 removeFromOrg now targetOrgId userId' s
                   = (Inl (HttpError 400 (UserWasntMigrated userId')), s)))
       \<and> (\<forall>p. migratedTo (metadataOrEmpty (umetadata u)) = Some p \<and> truthyBool (reverted p) \<longrightarrow>
            (\<exists>m. removeFromOrg now targetOrgId userId' s = (Inl (HttpError 400 m), s))
            \<and> (organizationId u = Some targetOrgId \<longrightarrow>
                 removeFromOrg now targetOrgId userId' s
                   = (Inl (HttpError 400 (UserAlreadyReverted userId')), s)))"
  using assms by (auto simp: removeFromOrg_def)

theorem removeFromOrg_never_migrated_or_reverted_witness:
  "findUserById 8 storeMembers = Some carol
   \<and> migratedTo (metadataOrEmpty (umetadata carol)) = None
   \<and> organizationId carol = Some 3
   \<and> removeFromOrg ''t2'' 3 8 storeMembers
        = (Inl (HttpError 400 (UserWasntMigrated 8)), storeMembers)"
proof -
  have h1: "findUserById 8 storeMembers = Some carol" by code_simp
  have h2: "migratedTo (metadataOrEmpty (umetadata carol)) = None" by code_simp
  have h3: "organizationId carol = Some 3" by (simp add: carol_def)
  show ?thesis
    using removeFromOrg_never_migrated_or_reverted [OF h1, where now = "''t2''"
        and targetOrgId = 3] h1 h2 h3
    by simp
qed

text \<open>The same on a user whose provenance record is marked reverted.\<close>

lemma removeFromOrg_reverted_example:
  "removeFromOrg ''t2'' 3 9 storeMembers
     = (Inl (HttpError 400 (UserAlreadyReverted 9)), storeMembers)"
  by code_simp

subsection \<open>C10: reverting a user whose membership row is missing\<close>

text \<open>
  Claim C10, as amended: if every check of \<open>removeFromOrg\<close> passes, the writes before
  the deletion meet no unique constraint (no team of the user has a slug that another
  team without parent, or another of the user's teams, holds, and no other standalone
  user holds the recorded username) and the user has no membership row in the target
  organization, the deletion of that row raises the store's error \<open>P2025\<close>; by then the user has been reverted (no organization, the
  standalone username, the provenance marked reverted) and the user's teams have no
  parent. A second run on the store so left fails with status 400 at the check that the
  user is part of the target organization, which comes before the check of the reverted
  mark.
\<close>

theorem removeFromOrg_missing_membership:
  assumes "findUserById userId' s = Some u"
      and "organizationId u = Some targetOrgId"
      and "migratedTo (metadataOrEmpty (umetadata u)) = Some p"
      and "\<not> truthyBool (reverted p)"
      and "musername p = Some n" and "n \<noteq> []"
      and "\<not> (\<exists>m \<in> set (memberships s). userId m = userId' \<and> teamId m = targetOrgId)"
      and "\<not> slugClashAfter (tid ` set (teamsOfUser userId' s)) None (teams s)"
      and "\<not> usernameTaken userId' n None (users s)"
  shows "fst (removeFromOrg now targetOrgId userId' s) = Inl (PrismaError ''P2025'')
       \<and> (\<exists>u' p'. findUserById userId' (snd (removeFromOrg now targetOrgId userId' s)) = Some u'
             \<and> organizationId u' = None \<and> username u' = Some n
             \<and> migratedTo (metadataOrEmpty (umetadata u')) = Some p' \<and> reverted p' = Some True)
       \<and> (\<forall>t \<in> set (teams (snd (removeFromOrg now targetOrgId userId' s))).
             tid t \<in> tid ` set (teamsOfUser userId' s) \<longrightarrow> parentId t = None)
       \<and> removeFromOrg now' targetOrgId userId' (snd (removeFromOrg now targetOrgId userId' s))
           = (Inl (HttpError 400 (UserNotPartOfOrg userId' targetOrgId)),
              snd (removeFromOrg now targetOrgId userId' s))"
proof -
  have uid: "uid u = userId'"
    using assms(1) unfolding findUserById_def by (rule find_Some_uid)
  define s3 where "s3 = removeRedirect_user (Some n) (teamsOfUser (uid u) s)
                (updateUser_remove u n now (snd (updateTeams_remove u s)))"
  have run: "removeFromOrg now targetOrgId userId' s = removeMembership targetOrgId u s3"
    unfolding s3_def by (rule removeFromOrg_writes [OF assms(1-6)])
  have mem: "memberships s3 = memberships s"
    by (simp add: s3_def)
  have res: "removeFromOrg now targetOrgId userId' s = (Inl (PrismaError ''P2025''), s3)"
    using assms(7) by (simp add: run removeMembership_def deleteMembership_def mem uid)
  have usr: "findUserById userId' s3 =
      Some (u\<lparr>organizationId := None, username := Some n,
              umetadata := Some ((metadataOrEmpty (umetadata u))
                 \<lparr>migratedTo := Some \<lparr>musername = None, reverted = Some True,
                     revertTime = Some now, lastMigrationTime = None\<rparr>\<rparr>)\<rparr>)"
    using assms(1)
    by (simp add: s3_def findUserById_def updateUser_remove_def uid find_uid_map)
  have tms: "\<forall>t \<in> set (teams s3). tid t \<in> tid ` set (teamsOfUser userId' s) \<longrightarrow> parentId t = None"
    by (auto simp: s3_def teams_updateTeams_remove uid)
  have again: "removeFromOrg now' targetOrgId userId' s3
           = (Inl (HttpError 400 (UserNotPartOfOrg userId' targetOrgId)), s3)"
    by (simp add: removeFromOrg_def usr)
  show ?thesis
    using usr tms again by (simp add: res metadataOrEmpty_def)
qed

theorem removeFromOrg_missing_membership_witness:
  "findUserById 7 storePartial = Some bobInAcme
   \<and> organizationId bobInAcme = Some 3
   \<and> fst (removeFromOrg ''t2'' 3 7 storePartial) = Inl (PrismaError ''P2025'')
   \<and> removeFromOrg ''t3'' 3 7 (snd (removeFromOrg ''t2'' 3 7 storePartial))
        = (Inl (HttpError 400 (UserNotPartOfOrg 7 3)), snd (removeFromOrg ''t2'' 3 7 storePartial))"
proof -
  let ?p = "\<lparr>musername = Some ''bob'', reverted = None, revertTime = None,
             lastMigrationTime = Some ''t1''\<rparr>"
  have h1: "findUserById 7 storePartial = Some bobInAcme" by code_simp
  have h2: "organizationId bobInAcme = Some 3" by (simp add: bobInAcme_def)
  have h3: "migratedTo (metadataOrEmpty (umetadata bobInAcme)) = Some ?p" by code_simp
  have h4: "\<not> truthyBool (reverted ?p)" by simp
  have h5: "musername ?p = Some ''bob''" by simp
  have h6: "''bob'' \<noteq> []" by simp
  have h7: "\<not> (\<exists>m \<in> set (memberships storePartial). userId m = 7 \<and> teamId m = 3)"
    by code_simp
  have h8: "\<not> slugClashAfter (tid ` set (teamsOfUser 7 storePartial)) None (teams storePartial)"
    by code_simp
  have h9: "\<not> usernameTaken 7 ''bob'' None (users storePartial)"
    by code_simp
  show ?thesis
    using removeFromOrg_missing_membership [OF h1 h2 h3 h4 h5 h6 h7 h8 h9, where now = "''t2''"
        and now' = "''t3''"] h1 h2
    by simp
qed

text \<open>
  The claim as stated fails in its last part: the second run stops at "is not part of
  orgId", not at "is already reverted".
\<close>

theorem removeFromOrg_rerun_fails_at_org_check:
  "fst (removeFromOrg ''t2'' 3 7 storePartial) = Inl (PrismaError ''P2025'')
   \<and> fst (removeFromOrg ''t3'' 3 7 (snd (removeFromOrg ''t2'' 3 7 storePartial)))
       = Inl (HttpError 400 (UserNotPartOfOrg 7 3))
   \<and> fst (removeFromOrg ''t3'' 3 7 (snd (removeFromOrg ''t2'' 3 7 storePartial)))
       \<noteq> Inl (HttpError 400 (UserAlreadyReverted 7))"
  by code_simp

end
